theory Spec2Isabelle
  imports Main "HOL-Library.Sublist"
begin

section \<open>Strings and small library functions of the source language\<close>

text \<open>
  Python strings are modelled as \<^typ>\<open>string\<close>. The functions below are the pieces of
  the Python standard library the modelled code calls: \<open>str(int)\<close> on a non-negative
  integer, \<open>str.endswith\<close>, \<open>str.split(sep)\<close>, \<open>str.rfind\<close>, and the \<open>name\<close>,
  \<open>suffix\<close> and \<open>stem\<close> properties of \<open>pathlib.Path\<close> on a POSIX system.
\<close>

definition digit_char :: "nat \<Rightarrow> char" where
  "digit_char d = ''0123456789'' ! d"

fun string_of_nat :: "nat \<Rightarrow> string" where
  "string_of_nat n =
     (if n < 10 then [digit_char n] else string_of_nat (n div 10) @ [digit_char (n mod 10)])"

declare string_of_nat.simps [simp del]

definition endswith :: "string \<Rightarrow> string \<Rightarrow> bool" where
  "endswith s suf = (length suf \<le> length s \<and> drop (length s - length suf) s = suf)"

definition endswith_any :: "string \<Rightarrow> string list \<Rightarrow> bool" where
  "endswith_any s sufs = list_ex (endswith s) sufs"

fun split_on :: "char \<Rightarrow> string \<Rightarrow> string list" where
  "split_on c [] = [[]]"
| "split_on c (x # xs) =
     (if x = c then [] # split_on c xs
      else (case split_on c xs of
              [] \<Rightarrow> [[x]]
            | p # ps \<Rightarrow> (x # p) # ps))"

fun rfind :: "char \<Rightarrow> string \<Rightarrow> nat option" where
  "rfind c [] = None"
| "rfind c (x # xs) =
     (case rfind c xs of
        Some i \<Rightarrow> Some (Suc i)
      | None \<Rightarrow> (if x = c then Some 0 else None))"

definition path_name :: "string \<Rightarrow> string" where
  "path_name p =
     (case filter (\<lambda>part. part \<noteq> [] \<and> part \<noteq> ''.'') (split_on (CHR ''/'') p) of
        [] \<Rightarrow> []
      | parts \<Rightarrow> last parts)"

definition path_suffix :: "string \<Rightarrow> string" where
  "path_suffix p =
     (let name = path_name p in
      case rfind (CHR ''.'') name of
        None \<Rightarrow> []
      | Some i \<Rightarrow> (if 0 < i \<and> i < length name - 1 then drop i name else []))"

definition path_stem :: "string \<Rightarrow> string" where
  "path_stem p =
     (let name = path_name p in
      case rfind (CHR ''.'') name of
        None \<Rightarrow> name
      | Some i \<Rightarrow> (if 0 < i \<and> i < length name - 1 then take i name else name))"

section \<open>The transfer object and its file names\<close>

record datetime =
  year :: nat
  month :: nat
  day :: nat
  hour :: nat
  minute :: nat
  second :: nat
  microsecond :: nat

definition zpad :: "nat \<Rightarrow> nat \<Rightarrow> string" where
  "zpad w n = replicate (w - length (string_of_nat n)) (CHR ''0'') @ string_of_nat n"

text \<open>\<open>now.strftime('%Y%m%d-%H%M%S')\<close> followed by the milliseconds on three digits.\<close>

definition format_ts :: "datetime \<Rightarrow> string" where
  "format_ts now =
     zpad 4 (year now) @ zpad 2 (month now) @ zpad 2 (day now) @ ''-''
     @ zpad 2 (hour now) @ zpad 2 (minute now) @ zpad 2 (second now)
     @ zpad 3 (microsecond now div 1000)"

record transfer_obj =
  slack_token :: string
  jira_token :: string
  jira_api_url_template :: string
  xfer_channel_id :: string
  xfer_message_ts :: string
  formatted_ts :: string
  filename_suffix :: string

definition transfer_init ::
  "string \<Rightarrow> string \<Rightarrow> string \<Rightarrow> string \<Rightarrow> string \<Rightarrow> datetime \<Rightarrow> transfer_obj" where
  "transfer_init slack_tok jira_tok jira_server_url chan msg_ts now =
     \<lparr> slack_token = slack_tok,
       jira_token = jira_tok,
       jira_api_url_template = jira_server_url @ ''/rest/api/2/issue/{issue_id}/attachments'',
       xfer_channel_id = chan,
       xfer_message_ts = msg_ts,
       formatted_ts = format_ts now,
       filename_suffix = chan @ ''-'' @ msg_ts @ ''-'' @ format_ts now \<rparr>"

definition IMAGE_EXTENSIONS :: "string list" where
  "IMAGE_EXTENSIONS = [''.png'', ''.jpg'', ''.jpeg'', ''.gif'']"

definition filename_to_jira_markup :: "string \<Rightarrow> string" where
  "filename_to_jira_markup filename =
     (if endswith_any filename IMAGE_EXTENSIONS
      then ''!'' @ filename @ ''|thumbnail!''
      else ''[^'' @ filename @ '']'')"

text \<open>The name \<open>process_jira_upload\<close> gives to the uploaded file.\<close>

definition new_filename :: "transfer_obj \<Rightarrow> string \<Rightarrow> nat \<Rightarrow> string" where
  "new_filename self filename file_id =
     path_name filename @ ''-'' @ string_of_nat file_id @ ''-'' @ filename_suffix self
     @ path_suffix filename"

section \<open>Collecting the results of the upload tasks\<close>

text \<open>
  The exceptions a task of the transfer can end with. \<open>asyncio.CancelledError\<close> derives
  from \<open>BaseException\<close> and not from \<open>Exception\<close>; the others are instances of
  \<open>Exception\<close>.
\<close>

datatype task_exception =
    AiohttpClientError string
  | AsyncioTimeoutError
  | AsyncioCancelledError
  | OtherTaskError string

fun is_Exception :: "task_exception \<Rightarrow> bool" where
  "is_Exception AsyncioCancelledError = False"
| "is_Exception _ = True"

text \<open>The Python values that appear among the results: strings, \<open>None\<close>, exception
  objects and lists.\<close>

datatype pyval =
    PyStr string
  | PyNone
  | PyExc task_exception
  | PyList "pyval list"

text \<open>How a task ends: it returns a value, raises an exception, or is cancelled.\<close>

datatype task_outcome = Returned pyval | Raised task_exception | Cancelled

text \<open>
  \<open>asyncio.gather(*tasks, return_exceptions=True)\<close>: the value of a task that returned,
  the exception object of a task that raised, and a \<open>CancelledError\<close> object for a task
  that was cancelled.
\<close>

definition gather_return_exceptions :: "task_outcome list \<Rightarrow> pyval list" where
  "gather_return_exceptions tasks =
     map (\<lambda>t. case t of
                 Returned v \<Rightarrow> v
               | Raised e \<Rightarrow> PyExc e
               | Cancelled \<Rightarrow> PyExc AsyncioCancelledError) tasks"

text \<open>\<open>isinstance(result, (Exception, type(None)))\<close>.\<close>

definition is_exception_or_none :: "pyval \<Rightarrow> bool" where
  "is_exception_or_none result =
     (case result of
        PyNone \<Rightarrow> True
      | PyExc e \<Rightarrow> is_Exception e
      | _ \<Rightarrow> False)"

text \<open>
  How the wait of \<open>process_jira_upload\<close> for its request ends: the request completes,
  the request raises, the wait times out, or the upload task itself is cancelled while
  it waits.
\<close>

datatype post_wait = PostDone | PostRaised task_exception | WaitTimedOut | TaskCancelled

text \<open>
  \<open>process_jira_upload\<close>: the \<open>except Exception\<close> clause logs and raises again what it
  catches, the timeout of \<open>asyncio.wait_for\<close> is a \<open>TimeoutError\<close>, and a cancellation
  passes the clause by.
\<close>

definition process_jira_upload ::
  "transfer_obj \<Rightarrow> string \<Rightarrow> nat \<Rightarrow> post_wait \<Rightarrow> task_outcome" where
  "process_jira_upload self filename file_id wait =
     (case wait of
        PostDone \<Rightarrow>
          Returned (PyStr (filename_to_jira_markup (new_filename self filename file_id)))
      | PostRaised e \<Rightarrow> (if is_Exception e then Raised e else Cancelled)
      | WaitTimedOut \<Rightarrow> Raised AsyncioTimeoutError
      | TaskCancelled \<Rightarrow> Cancelled)"

text \<open>
  The end of \<open>download_and_process_file\<close>: the results of the upload tasks, one for each
  target, are gathered and every exception or \<open>None\<close> among them is replaced by the
  empty string.
\<close>

definition download_and_process_file ::
  "transfer_obj \<Rightarrow> string \<Rightarrow> nat \<Rightarrow> post_wait list \<Rightarrow> pyval list" where
  "download_and_process_file self filename file_id waits =
     map (\<lambda>result. if \<not> is_exception_or_none result then result else PyStr [])
       (gather_return_exceptions (map (process_jira_upload self filename file_id) waits))"

text \<open>
  The end of \<open>transfer\<close>: the results of the file tasks are gathered and a file task
  that raised is replaced by a row of empty strings, one for each target.
\<close>

definition transfer :: "nat \<Rightarrow> task_outcome list \<Rightarrow> pyval list" where
  "transfer n_targets file_tasks =
     map (\<lambda>file_task_result.
            if \<not> is_exception_or_none file_task_result then file_task_result
            else PyList (replicate n_targets (PyStr [])))
       (gather_return_exceptions file_tasks)"

section \<open>Sanitising a mention and inferring the command\<close>

text \<open>
  A character stands for one code point below 256. \<open>is_space\<close> is the whitespace of
  \<open>str.strip\<close> and of the pattern \<open>\s\<close> on that range.
\<close>

definition is_space :: "char \<Rightarrow> bool" where
  "is_space c = (of_char c \<in> {9, 10, 11, 12, 13, 28, 29, 30, 31, 32, 133, 160 :: nat})"

definition strip :: "string \<Rightarrow> string" where
  "strip s = rev (dropWhile is_space (rev (dropWhile is_space s)))"










text \<open>\<open>text.split(' ', maxsplit=1)\<close>.\<close>

definition split_maxsplit1 :: "string \<Rightarrow> string list" where
  "split_maxsplit1 s =
     (if CHR '' '' \<in> set s
      then [takeWhile (\<lambda>c. c \<noteq> CHR '' '') s, tl (dropWhile (\<lambda>c. c \<noteq> CHR '' '') s)]
      else [s])"

text \<open>
  The fields of an event payload the handlers read; a key that is absent, or present
  with the value \<open>None\<close>, is \<open>None\<close> here.
\<close>

record event_data =
  ev_text :: "string option"
  ev_channel :: "string option"
  ev_ts :: "string option"
  ev_thread_ts :: "string option"












section \<open>Exceptions, collaborators and the world they act on\<close>

text \<open>
  The reasons for which the workflows raise \<open>IgnorableException\<close>, one constructor for
  each \<open>raise\<close> statement, with the values its message is formatted from.
\<close>

datatype ignorable_reason =
    InvalidCommandFormat string
  | NoDynamoDbWrapper string string
  | NoJiraWrapper string string
  | NotRegisteredToThread string string string
  | NoJiraLinkInformation "(string \<times> string) list"

text \<open>
  The exceptions (instances of \<open>Exception\<close>) that travel through the event handlers:
  the two kinds of \<open>exceptions.py\<close>, the error class of the Slack client
  (\<open>SlackSdkWrapper.ClientException\<close>), the HTTP error of the Jira client with its status
  code, and any other exception, named by its class.
\<close>

datatype exn =
    NotHandledException string
  | IgnorableException ignorable_reason
  | ClientException string
  | HTTPError nat
  | OtherException string

fun is_not_handled :: "exn \<Rightarrow> bool" where
  "is_not_handled (NotHandledException _) = True"
| "is_not_handled _ = False"

fun is_ignorable :: "exn \<Rightarrow> bool" where
  "is_ignorable (IgnorableException _) = True"
| "is_ignorable _ = False"

fun is_client_exception :: "exn \<Rightarrow> bool" where
  "is_client_exception (ClientException _) = True"
| "is_client_exception _ = False"

text \<open>The static configuration \<open>CONFIG\<close>.\<close>

record config =
  success_reaction :: string
  error_reaction :: string
  icon_url :: string
  icon_title :: string
  sync_reaction :: string
  app_name :: string

text \<open>
  A stored item is a dictionary from attribute names to strings, kept as an association
  list in insertion order. \<open>dict_set\<close> is the assignment \<open>d[k] = v\<close>, \<open>dict_merge\<close> the
  update of one dictionary by another, as in \<open>{**d, **e}\<close>.
\<close>

type_synonym item = "(string \<times> string) list"

fun dict_set :: "item \<Rightarrow> string \<Rightarrow> string \<Rightarrow> item" where
  "dict_set [] k v = [(k, v)]"
| "dict_set ((k', v') # d) k v = (if k' = k then (k, v) # d else (k', v') # dict_set d k v)"

fun dict_merge :: "item \<Rightarrow> item \<Rightarrow> item" where
  "dict_merge d [] = d"
| "dict_merge d ((k, v) # e) = dict_merge (dict_set d k v) e"

definition dict_get :: "item \<Rightarrow> string \<Rightarrow> string option" where
  "dict_get d k = map_of d k"

text \<open>
  Modelled from the spec: the key schema of the table, which the source does not
  declare. The key-value table behind \<open>DynamoDbWrapper\<close> is a list of items, whose
  primary key is the pair of the attributes \<open>slack_thread_id\<close> (hash key) and
  \<open>jira_issue_id\<close> (range key). Reading by key returns the item that carries the key's
  attributes; writing replaces the item with the same primary key where it stands, or
  appends; deleting removes the items that carry the key's attributes.
\<close>

type_synonym table = "item list"

definition primary_key :: "item \<Rightarrow> string option \<times> string option" where
  "primary_key it = (dict_get it ''slack_thread_id'', dict_get it ''jira_issue_id'')"

definition key_matches :: "item \<Rightarrow> item \<Rightarrow> bool" where
  "key_matches key it = list_all (\<lambda>(k, v). dict_get it k = Some v) key"

definition table_get_item :: "table \<Rightarrow> item \<Rightarrow> item option" where
  "table_get_item tbl key = find (key_matches key) tbl"

fun table_put_item :: "table \<Rightarrow> item \<Rightarrow> table" where
  "table_put_item [] it = [it]"
| "table_put_item (x # xs) it =
     (if primary_key x = primary_key it then it # xs else x # table_put_item xs it)"

definition table_delete_item :: "table \<Rightarrow> item \<Rightarrow> table" where
  "table_delete_item tbl key = filter (\<lambda>it. \<not> key_matches key it) tbl"

text \<open>
  \<open>DynamoDbWrapper.get_item\<close> returns \<open>response.get('Item', {})\<close>. Its result is a
  Python value that callers test against \<open>None\<close>, so it is an \<^typ>\<open>item option\<close> here,
  with \<^term>\<open>None\<close> for Python's \<open>None\<close>.
\<close>

definition get_item :: "table \<Rightarrow> item \<Rightarrow> item option" where
  "get_item tbl key =
     Some (case table_get_item tbl key of None \<Rightarrow> [] | Some it \<Rightarrow> it)"

definition put_item :: "table \<Rightarrow> item \<Rightarrow> table" where
  "put_item tbl it = table_put_item tbl it"

definition delete_item :: "table \<Rightarrow> item \<Rightarrow> table" where
  "delete_item tbl key = table_delete_item tbl key"

text \<open>
  The issue tracker behind \<open>JiraWrapper\<close>: the remote links, keyed by issue and link
  id, and the number the next created link receives. A request for a link that does not
  exist is answered with status 404.
\<close>

record remote_link =
  rl_url :: string
  rl_title :: string
  rl_icon_url :: string
  rl_icon_title :: string

record jira_state =
  remote_links :: "((string \<times> string) \<times> remote_link) list"
  next_link_id :: nat

definition get_issue_remote_link_by_id ::
  "jira_state \<Rightarrow> string \<Rightarrow> string \<Rightarrow> exn + remote_link" where
  "get_issue_remote_link_by_id j issue link_id =
     (case map_of (remote_links j) (issue, link_id) of
        None \<Rightarrow> Inl (HTTPError 404)
      | Some l \<Rightarrow> Inr l)"

fun alist_update :: "'k \<Rightarrow> 'v \<Rightarrow> ('k \<times> 'v) list \<Rightarrow> ('k \<times> 'v) list" where
  "alist_update k v [] = [(k, v)]"
| "alist_update k v ((k', v') # ps) =
     (if k' = k then (k, v) # ps else (k', v') # alist_update k v ps)"

definition update_issue_remote_link_by_id ::
  "jira_state \<Rightarrow> string \<Rightarrow> string \<Rightarrow> string \<Rightarrow> string \<Rightarrow> exn option \<times> jira_state" where
  "update_issue_remote_link_by_id j issue link_id url title =
     (case map_of (remote_links j) (issue, link_id) of
        None \<Rightarrow> (Some (HTTPError 404), j)
      | Some l \<Rightarrow>
          (None, j\<lparr>remote_links :=
             alist_update (issue, link_id) (l\<lparr>rl_url := url, rl_title := title\<rparr>)
               (remote_links j)\<rparr>))"

definition delete_issue_remote_link_by_id ::
  "jira_state \<Rightarrow> string \<Rightarrow> string \<Rightarrow> exn option \<times> jira_state" where
  "delete_issue_remote_link_by_id j issue link_id =
     (case map_of (remote_links j) (issue, link_id) of
        None \<Rightarrow> (Some (HTTPError 404), j)
      | Some l \<Rightarrow>
          (None, j\<lparr>remote_links := filter (\<lambda>(k, _). k \<noteq> (issue, link_id)) (remote_links j)\<rparr>))"

definition create_or_update_issue_remote_links ::
  "jira_state \<Rightarrow> string \<Rightarrow> string \<Rightarrow> string \<Rightarrow> string \<Rightarrow> string \<Rightarrow> nat \<times> jira_state" where
  "create_or_update_issue_remote_links j issue url title i_url i_title =
     (next_link_id j,
      j\<lparr>remote_links := remote_links j @
           [((issue, string_of_nat (next_link_id j)),
             \<lparr>rl_url = url, rl_title = title, rl_icon_url = i_url, rl_icon_title = i_title\<rparr>)],
        next_link_id := Suc (next_link_id j)\<rparr>)"

text \<open>The methods of \<open>JiraWrapper\<close>.\<close>

definition add_link ::
  "jira_state \<Rightarrow> string \<Rightarrow> string \<Rightarrow> string \<Rightarrow> string \<Rightarrow> string \<Rightarrow> nat \<times> jira_state" where
  "add_link j jira_issue_id url title i_url i_title =
     create_or_update_issue_remote_links j jira_issue_id url title i_url i_title"

definition remove_link :: "jira_state \<Rightarrow> string \<Rightarrow> string \<Rightarrow> exn option \<times> jira_state" where
  "remove_link j jira_issue_id jira_link_id =
     (case delete_issue_remote_link_by_id j jira_issue_id jira_link_id of
        (Some (HTTPError status), j') \<Rightarrow>
          (if status \<noteq> 404 then (Some (HTTPError status), j') else (None, j'))
      | r \<Rightarrow> r)"

definition validate_link :: "jira_state \<Rightarrow> string \<Rightarrow> string \<Rightarrow> exn + bool" where
  "validate_link j jira_issue_id jira_link_id =
     (case get_issue_remote_link_by_id j jira_issue_id jira_link_id of
        Inr _ \<Rightarrow> Inr True
      | Inl (HTTPError status) \<Rightarrow>
          (if status \<noteq> 404 then Inl (HTTPError status) else Inr False)
      | Inl e \<Rightarrow> Inl e)"

definition update_link ::
  "jira_state \<Rightarrow> string \<Rightarrow> string \<Rightarrow> string \<Rightarrow> string \<Rightarrow> exn option \<times> jira_state" where
  "update_link j jira_issue_id jira_link_id url title =
     update_issue_remote_link_by_id j jira_issue_id jira_link_id url title"

text \<open>
  The messaging platform behind \<open>SlackSdkWrapper\<close>: the bot's user id, the names of the
  channels, the permalinks of the messages, the reactions on each message (channel and
  timestamp), and the outcomes of the coming calls of the reactions API, in order: a
  call whose scheduled outcome is an exception raises it and changes nothing, and a call
  with no scheduled outcome succeeds.
\<close>

record reaction =
  r_name :: "string option"
  r_users :: "string list"

record slack_state =
  bot_id :: string
  channel_names :: "string \<Rightarrow> string"
  permalinks :: "string \<Rightarrow> string \<Rightarrow> string"
  reactions :: "string \<times> string \<Rightarrow> reaction list"
  faults :: "exn option list"

datatype log_entry =
    Log_ack_success string string string
  | Log_ack_error string string string
  | Log_ack_not_handled string string
  | Log_ack_failed string string string
  | Log_operation_exception exn
  | Log_remove_link_failed string string exn

text \<open>
  The world a handler runs in: the three injected wrappers (the two optional ones are
  \<^term>\<open>None\<close> when they were not injected), the current time as
  \<open>datetime.now(UTC).isoformat()\<close> renders it, and the log.
\<close>

record world =
  dynamo_db_wrapper :: "table option"
  jira_wrapper :: "jira_state option"
  slack_sdk_wrapper :: slack_state
  clock :: string
  log :: "log_entry list"

definition get_channel_name :: "slack_state \<Rightarrow> string \<Rightarrow> string" where
  "get_channel_name s chan = channel_names s chan"

definition get_message_link :: "slack_state \<Rightarrow> string \<Rightarrow> string \<Rightarrow> string" where
  "get_message_link s chan ts = permalinks s chan ts"

section \<open>The mention event and its two workflows\<close>

text \<open>
  The event object after \<open>Event.__init__\<close>. Every event has the two fields the base
  class requires; a mention event adds the thread timestamp that \<open>_handle_event_type\<close>
  of \<open>AppMentionEvent\<close> requires and the text \<open>_handle_event_sub_type\<close> keeps.
\<close>

record event =
  message_ts :: string
  channel_id :: string

record mention_event = event +
  thread_ts :: string
  sanitized_text :: string

text \<open>
  \<open>Event.__init__\<close> for the two mention workflows: \<open>_handle_event_type\<close> of
  \<open>AppMentionEvent\<close>, then \<open>_handle_event_sub_type\<close>, then the check of the two required
  fields.
\<close>

definition mention_init :: "event_data \<Rightarrow> string option \<Rightarrow> exn + mention_event" where
  "mention_init ev args =
     (case ev_thread_ts ev of
        None \<Rightarrow> Inl (NotHandledException ''Missing thread_ts in app mention event'')
      | Some tts \<Rightarrow>
     (case ev_channel ev of
        None \<Rightarrow> Inl (NotHandledException ''Missing channel in app mention event'')
      | Some chan \<Rightarrow>
     (case ev_ts ev of
        None \<Rightarrow> Inl (NotHandledException ''Missing message_ts in app mention event'')
      | Some ts \<Rightarrow>
          Inr \<lparr> message_ts = ts, channel_id = chan, thread_ts = tts,
                sanitized_text = (case args of None \<Rightarrow> [] | Some a \<Rightarrow> strip a) \<rparr>)))"

definition get_thread_id :: "string \<Rightarrow> string \<Rightarrow> string" where
  "get_thread_id tts chan = chan @ ''_'' @ tts"

definition dynamodb_key :: "string \<Rightarrow> string \<Rightarrow> item" where
  "dynamodb_key jira_issue_id thread_id =
     [(''jira_issue_id'', jira_issue_id), (''slack_thread_id'', thread_id)]"

definition raise :: "exn \<Rightarrow> world \<Rightarrow> exn option \<times> world" where
  "raise e w = (Some e, w)"

text \<open>\<open>AppMentionDeregisterEvent._process_event\<close>.\<close>

definition deregister_process_event :: "mention_event \<Rightarrow> world \<Rightarrow> exn option \<times> world" where
  "deregister_process_event self w =
     (if sanitized_text self = []
      then raise (IgnorableException (InvalidCommandFormat (sanitized_text self))) w
      else case dynamo_db_wrapper w of
        None \<Rightarrow>
          raise (IgnorableException (NoDynamoDbWrapper (message_ts self) (channel_id self))) w
      | Some tbl \<Rightarrow>
      (case jira_wrapper w of
        None \<Rightarrow>
          raise (IgnorableException (NoJiraWrapper (message_ts self) (channel_id self))) w
      | Some jira \<Rightarrow>
      (let command_parts = split_on (CHR '' '') (sanitized_text self) in
       if length command_parts \<noteq> 1
       then raise (IgnorableException (InvalidCommandFormat (sanitized_text self))) w
       else
         let jira_issue_id = hd command_parts;
             thread_id = get_thread_id (thread_ts self) (channel_id self);
             key = dynamodb_key jira_issue_id thread_id;
             channel_name = get_channel_name (slack_sdk_wrapper w) (channel_id self)
         in case get_item tbl key of
              None \<Rightarrow>
                raise (IgnorableException
                         (NotRegisteredToThread jira_issue_id thread_id channel_name)) w
            | Some it \<Rightarrow>
              (case dict_get it ''jira_link_id'' of
                 None \<Rightarrow> raise (IgnorableException (NoJiraLinkInformation key)) w
               | Some jira_link_id \<Rightarrow>
                   if jira_link_id = []
                   then raise (IgnorableException (NoJiraLinkInformation key)) w
                   else
                     let (failure, jira') = remove_link jira jira_issue_id jira_link_id;
                         log' = (case failure of
                                   None \<Rightarrow> log w
                                 | Some e \<Rightarrow>
                                     log w @ [Log_remove_link_failed jira_link_id
                                                jira_issue_id e])
                     in (None, w\<lparr>jira_wrapper := Some jira',
                                 dynamo_db_wrapper := Some (delete_item tbl key),
                                 log := log'\<rparr>)))))"

text \<open>\<open>AppMentionRegisterEvent._get_link_title\<close> and \<open>_process_event\<close>.\<close>

definition get_link_title :: "config \<Rightarrow> string \<Rightarrow> string \<Rightarrow> string" where
  "get_link_title cfg channel_name link_text =
     app_name cfg @ '': #'' @ channel_name @ '' '' @ link_text"

text \<open>
  The item the workflow stores: \<open>{**dynamodb_key, **existing_item, 'created_at': now,
  'jira_link_id': str(jira_link_id)}\<close>.
\<close>

definition registration_item :: "item \<Rightarrow> item \<Rightarrow> string \<Rightarrow> string \<Rightarrow> item" where
  "registration_item key existing_item now jira_link_id =
     dict_set (dict_set (dict_merge key existing_item) ''created_at'' now)
       ''jira_link_id'' jira_link_id"

text \<open>
  The first half of the workflow's decision: \<open>Some l\<close> when an item was found, it
  carries a non-empty \<open>jira_link_id\<close> \<open>l\<close>, and \<open>validate_link\<close> answered \<open>True\<close> for it,
  that is when \<open>existing_item and remote_link_valid\<close> holds with \<open>jira_link_id = l\<close>;
  \<open>None\<close> otherwise. An exception of \<open>validate_link\<close> is passed on.
\<close>

definition registered_valid_link ::
  "jira_state \<Rightarrow> string \<Rightarrow> item \<Rightarrow> exn + string option" where
  "registered_valid_link jira jira_issue_id existing_item =
     (if existing_item \<noteq> []
      then (case dict_get existing_item ''jira_link_id'' of
              None \<Rightarrow> Inr None
            | Some jira_link_id \<Rightarrow>
                if jira_link_id \<noteq> []
                then (case validate_link jira jira_issue_id jira_link_id of
                        Inl e \<Rightarrow> Inl e
                      | Inr remote_link_valid \<Rightarrow>
                          Inr (if remote_link_valid then Some jira_link_id else None))
                else Inr None)
      else Inr None)"

definition register_process_event ::
  "config \<Rightarrow> mention_event \<Rightarrow> world \<Rightarrow> exn option \<times> world" where
  "register_process_event cfg self w =
     (if sanitized_text self = []
      then raise (IgnorableException (InvalidCommandFormat (sanitized_text self))) w
      else case dynamo_db_wrapper w of
        None \<Rightarrow>
          raise (IgnorableException (NoDynamoDbWrapper (message_ts self) (channel_id self))) w
      | Some tbl \<Rightarrow>
      (case jira_wrapper w of
        None \<Rightarrow>
          raise (IgnorableException (NoJiraWrapper (message_ts self) (channel_id self))) w
      | Some jira \<Rightarrow>
      (let command_parts = split_maxsplit1 (sanitized_text self) in
       if length command_parts < 1
       then raise (IgnorableException (InvalidCommandFormat (sanitized_text self))) w
       else
         let jira_issue_id = hd command_parts;
             optional_param = (case tl command_parts of [] \<Rightarrow> None | p # _ \<Rightarrow> Some p);
             link_text = (case optional_param of
                            None \<Rightarrow> thread_ts self
                          | Some p \<Rightarrow> if p \<noteq> [] then p else thread_ts self);
             channel_name = get_channel_name (slack_sdk_wrapper w) (channel_id self);
             thread_link = get_message_link (slack_sdk_wrapper w) (channel_id self)
                             (thread_ts self);
             link_title = get_link_title cfg channel_name link_text;
             thread_id = get_thread_id (thread_ts self) (channel_id self);
             key = dynamodb_key jira_issue_id thread_id;
             existing_item = (case get_item tbl key of None \<Rightarrow> [] | Some it \<Rightarrow> it)
         in case registered_valid_link jira jira_issue_id existing_item of
              Inl e \<Rightarrow> raise e w
            | Inr (Some jira_link_id) \<Rightarrow>
                (case update_link jira jira_issue_id jira_link_id thread_link link_title of
                   (Some e, jira') \<Rightarrow> raise e (w\<lparr>jira_wrapper := Some jira'\<rparr>)
                 | (None, jira') \<Rightarrow>
                     (None,
                      w\<lparr>jira_wrapper := Some jira',
                        dynamo_db_wrapper := Some (put_item tbl
                          (registration_item key existing_item (clock w) jira_link_id))\<rparr>))
            | Inr None \<Rightarrow>
                (let (new_id, jira') = add_link jira jira_issue_id thread_link link_title
                                         (icon_url cfg) (icon_title cfg)
                 in (None,
                     w\<lparr>jira_wrapper := Some jira',
                       dynamo_db_wrapper := Some (put_item tbl
                         (registration_item key existing_item (clock w)
                            (string_of_nat new_id)))\<rparr>)))))"

text \<open>
  A table as the store keeps it: no two items share a primary key, and no item names an
  attribute twice.
\<close>

definition wf_table :: "table \<Rightarrow> bool" where
  "wf_table tbl = (distinct (map primary_key tbl) \<and> list_all (\<lambda>it. distinct (map fst it)) tbl)"

section \<open>The acknowledgement of an event and \<open>handle_event\<close>\<close>

text \<open>
  One call of the reactions API of the Slack client: it takes the next scheduled
  outcome, and raises it when it is an exception.
\<close>

definition slack_api_call :: "world \<Rightarrow> exn option \<times> world" where
  "slack_api_call w =
     (case faults (slack_sdk_wrapper w) of
        [] \<Rightarrow> (None, w)
      | f # fs \<Rightarrow> (f, w\<lparr>slack_sdk_wrapper := (slack_sdk_wrapper w)\<lparr>faults := fs\<rparr>\<rparr>))"

definition set_reactions :: "world \<Rightarrow> string \<Rightarrow> string \<Rightarrow> reaction list \<Rightarrow> world" where
  "set_reactions w chan ts rs =
     w\<lparr>slack_sdk_wrapper := (slack_sdk_wrapper w)
          \<lparr>reactions := (reactions (slack_sdk_wrapper w))((chan, ts) := rs)\<rparr>\<rparr>"

definition get_reactions :: "world \<Rightarrow> string \<Rightarrow> string \<Rightarrow> reaction list" where
  "get_reactions w chan ts = reactions (slack_sdk_wrapper w) (chan, ts)"

text \<open>
  The effect of \<open>reactions.remove\<close> and of \<open>reactions.add\<close> on the reactions of a
  message: the user leaves, or joins, the reaction of the given name; a reaction that
  no user is left on disappears, and a reaction that is not there yet is added.
\<close>

definition without_user :: "string \<Rightarrow> string \<Rightarrow> reaction list \<Rightarrow> reaction list" where
  "without_user user name rs =
     filter (\<lambda>r. r_users r \<noteq> [])
       (map (\<lambda>r. if r_name r = Some name then r\<lparr>r_users := removeAll user (r_users r)\<rparr> else r)
          rs)"

definition with_user :: "string \<Rightarrow> string \<Rightarrow> reaction list \<Rightarrow> reaction list" where
  "with_user user name rs =
     (if list_ex (\<lambda>r. r_name r = Some name) rs
      then map (\<lambda>r. if r_name r = Some name \<and> user \<notin> set (r_users r)
                     then r\<lparr>r_users := r_users r @ [user]\<rparr> else r) rs
      else rs @ [\<lparr>r_name = Some name, r_users = [user]\<rparr>])"

definition reactions_get :: "world \<Rightarrow> string \<Rightarrow> string \<Rightarrow> (exn + reaction list) \<times> world" where
  "reactions_get w chan ts =
     (case slack_api_call w of
        (Some e, w') \<Rightarrow> (Inl e, w')
      | (None, w') \<Rightarrow> (Inr (get_reactions w' chan ts), w'))"

definition reactions_remove :: "world \<Rightarrow> string \<Rightarrow> string \<Rightarrow> string \<Rightarrow> exn option \<times> world" where
  "reactions_remove w chan ts name =
     (case slack_api_call w of
        (Some e, w') \<Rightarrow> (Some e, w')
      | (None, w') \<Rightarrow>
          (None, set_reactions w' chan ts
                   (without_user (bot_id (slack_sdk_wrapper w')) name (get_reactions w' chan ts))))"

definition reactions_add :: "world \<Rightarrow> string \<Rightarrow> string \<Rightarrow> string \<Rightarrow> exn option \<times> world" where
  "reactions_add w chan ts name =
     (case slack_api_call w of
        (Some e, w') \<Rightarrow> (Some e, w')
      | (None, w') \<Rightarrow>
          (None, set_reactions w' chan ts
                   (with_user (bot_id (slack_sdk_wrapper w')) name (get_reactions w' chan ts))))"

text \<open>\<open>SlackSdkWrapper.add_reaction\<close> and \<open>remove_bot_reactions\<close>, with its loop.\<close>

definition add_reaction :: "world \<Rightarrow> string \<Rightarrow> string \<Rightarrow> string \<Rightarrow> exn option \<times> world" where
  "add_reaction w chan ts reaction = reactions_add w chan ts reaction"

fun remove_bot_reactions_loop ::
  "string \<Rightarrow> string \<Rightarrow> reaction list \<Rightarrow> world \<Rightarrow> exn option \<times> world" where
  "remove_bot_reactions_loop chan ts [] w = (None, w)"
| "remove_bot_reactions_loop chan ts (r # rs) w =
     (if bot_id (slack_sdk_wrapper w) \<notin> set (r_users r)
      then remove_bot_reactions_loop chan ts rs w
      else case r_name r of
             None \<Rightarrow> remove_bot_reactions_loop chan ts rs w
           | Some reaction_name \<Rightarrow>
               if reaction_name = []
               then remove_bot_reactions_loop chan ts rs w
               else (case reactions_remove w chan ts reaction_name of
                       (Some e, w') \<Rightarrow> (Some e, w')
                     | (None, w') \<Rightarrow> remove_bot_reactions_loop chan ts rs w'))"

definition remove_bot_reactions :: "world \<Rightarrow> string \<Rightarrow> string \<Rightarrow> exn option \<times> world" where
  "remove_bot_reactions w chan ts =
     (case reactions_get w chan ts of
        (Inl e, w') \<Rightarrow> (Some e, w')
      | (Inr rs, w') \<Rightarrow>
          if rs = [] then (None, w') else remove_bot_reactions_loop chan ts rs w')"

definition add_log :: "log_entry \<Rightarrow> world \<Rightarrow> world" where
  "add_log entry w = w\<lparr>log := log w @ [entry]\<rparr>"

text \<open>
  The decorator \<open>Event._acknowledge_prepare\<close>, applied to a function of the given name:
  the body of its \<open>try\<close> statement, and the wrapper with its \<open>except\<close> clause for the
  error class of the Slack client.
\<close>

definition acknowledge_try ::
  "('a event_scheme \<Rightarrow> world \<Rightarrow> exn option \<times> world) \<Rightarrow> 'a event_scheme \<Rightarrow> world
     \<Rightarrow> exn option \<times> world" where
  "acknowledge_try func self w =
     (case remove_bot_reactions w (channel_id self) (message_ts self) of
        (Some e, w') \<Rightarrow> (Some e, w')
      | (None, w') \<Rightarrow> func self w')"

definition acknowledge_prepare ::
  "string \<Rightarrow> ('a event_scheme \<Rightarrow> world \<Rightarrow> exn option \<times> world) \<Rightarrow> 'a event_scheme \<Rightarrow> world
     \<Rightarrow> exn option \<times> world" where
  "acknowledge_prepare func_name func self w =
     (case acknowledge_try func self w of
        (Some e, w') \<Rightarrow>
          if is_client_exception e
          then (None, add_log (Log_ack_failed func_name (channel_id self) (message_ts self)) w')
          else (Some e, w')
      | (None, w') \<Rightarrow> (None, w'))"

definition acknowledge_event_success ::
  "config \<Rightarrow> 'a event_scheme \<Rightarrow> world \<Rightarrow> exn option \<times> world" where
  "acknowledge_event_success cfg =
     acknowledge_prepare ''acknowledge_event_success''
       (\<lambda>self w.
          add_reaction
            (add_log (Log_ack_success (channel_id self) (message_ts self)
                        (success_reaction cfg)) w)
            (channel_id self) (message_ts self) (success_reaction cfg))"

definition acknowledge_event_error ::
  "config \<Rightarrow> 'a event_scheme \<Rightarrow> world \<Rightarrow> exn option \<times> world" where
  "acknowledge_event_error cfg =
     acknowledge_prepare ''acknowledge_event_error''
       (\<lambda>self w.
          add_reaction
            (add_log (Log_ack_error (channel_id self) (message_ts self)
                        (error_reaction cfg)) w)
            (channel_id self) (message_ts self) (error_reaction cfg))"

definition acknowledge_event_not_handled ::
  "'a event_scheme \<Rightarrow> world \<Rightarrow> exn option \<times> world" where
  "acknowledge_event_not_handled =
     acknowledge_prepare ''acknowledge_event_not_handled''
       (\<lambda>self w.
          (None, add_log (Log_ack_not_handled (channel_id self) (message_ts self)) w))"

text \<open>
  \<open>Event.handle_event\<close>, for a workflow body \<open>process_event\<close>: the three clauses of its
  \<open>try\<close> statement.
\<close>

definition handle_event ::
  "config \<Rightarrow> ('a event_scheme \<Rightarrow> world \<Rightarrow> exn option \<times> world) \<Rightarrow> 'a event_scheme \<Rightarrow> world
     \<Rightarrow> exn option \<times> world" where
  "handle_event cfg process_event self w =
     (case process_event self w of
        (Some e, w1) \<Rightarrow>
          if is_not_handled e then acknowledge_event_not_handled self w1
          else (case acknowledge_event_error cfg self (add_log (Log_operation_exception e) w1) of
                  (Some e', w2) \<Rightarrow> (Some e', w2)
                | (None, w2) \<Rightarrow> if \<not> is_ignorable e then (Some e, w2) else (None, w2))
      | (None, w1) \<Rightarrow> acknowledge_event_success cfg self w1)"

text \<open>The bot is among the users of a reaction of the given name on a message.\<close>

definition bot_reacted :: "world \<Rightarrow> string \<Rightarrow> string \<Rightarrow> string \<Rightarrow> bool" where
  "bot_reacted w chan ts name =
     list_ex (\<lambda>r. r_name r = Some name \<and> bot_id (slack_sdk_wrapper w) \<in> set (r_users r))
       (get_reactions w chan ts)"

text \<open>The outcomes still scheduled for the calls of the reactions API.\<close>

definition pending_faults :: "world \<Rightarrow> exn option set" where
  "pending_faults w = set (faults (slack_sdk_wrapper w))"

text \<open>
  The reactions that still carry the bot under a name are among those the loop has yet
  to visit.
\<close>

definition bot_marks_within :: "string \<Rightarrow> reaction list \<Rightarrow> reaction list \<Rightarrow> bool" where
  "bot_marks_within b cur todo =
     (\<forall>r' \<in> set cur. b \<in> set (r_users r') \<and> (\<exists>n. r_name r' = Some n \<and> n \<noteq> [])
        \<longrightarrow> (\<exists>r \<in> set todo. r_name r = r_name r' \<and> b \<in> set (r_users r)))"

text \<open>
  The first exception among the first \<open>n\<close> scheduled outcomes, that is the exception
  that ends a run of \<open>n\<close> calls of the Slack API, if any. A reaction is a mark of the bot
  when the bot is among its users and its name is not empty; \<open>remove_bot_reactions\<close>
  makes one call to read the reactions and one call for each mark of the bot among them.
\<close>

fun first_fault :: "exn option list \<Rightarrow> nat \<Rightarrow> exn option" where
  "first_fault fs 0 = None"
| "first_fault [] (Suc n) = None"
| "first_fault (None # fs) (Suc n) = first_fault fs n"
| "first_fault (Some e # fs) (Suc n) = Some e"

definition is_bot_mark :: "string \<Rightarrow> reaction \<Rightarrow> bool" where
  "is_bot_mark b r =
     (b \<in> set (r_users r) \<and> (case r_name r of None \<Rightarrow> False | Some n \<Rightarrow> n \<noteq> []))"

definition clearing_calls :: "world \<Rightarrow> string \<Rightarrow> string \<Rightarrow> nat" where
  "clearing_calls w chan ts =
     1 + length (filter (is_bot_mark (bot_id (slack_sdk_wrapper w))) (get_reactions w chan ts))"

text \<open>
  Names for what the workflows compute from the event: the issue id the register
  workflow reads from its arguments, the key of the registration, the link title and
  the thread's permalink; and the registration the store holds under a key.
\<close>

definition register_issue_id :: "mention_event \<Rightarrow> string" where
  "register_issue_id self = hd (split_maxsplit1 (sanitized_text self))"

definition register_key :: "mention_event \<Rightarrow> item" where
  "register_key self =
     dynamodb_key (register_issue_id self) (get_thread_id (thread_ts self) (channel_id self))"

definition register_link_title :: "config \<Rightarrow> mention_event \<Rightarrow> world \<Rightarrow> string" where
  "register_link_title cfg self w =
     get_link_title cfg (get_channel_name (slack_sdk_wrapper w) (channel_id self))
       (case tl (split_maxsplit1 (sanitized_text self)) of
          [] \<Rightarrow> thread_ts self
        | p # _ \<Rightarrow> if p \<noteq> [] then p else thread_ts self)"

definition register_thread_link :: "mention_event \<Rightarrow> world \<Rightarrow> string" where
  "register_thread_link self w =
     get_message_link (slack_sdk_wrapper w) (channel_id self) (thread_ts self)"

definition stored_registration :: "world \<Rightarrow> string \<Rightarrow> string \<Rightarrow> item option" where
  "stored_registration w jira_issue_id thread_id =
     (case dynamo_db_wrapper w of
        None \<Rightarrow> None
      | Some tbl \<Rightarrow> table_get_item tbl (dynamodb_key jira_issue_id thread_id))"

section \<open>Example data\<close>

definition example_config :: config where
  "example_config =
     \<lparr>success_reaction = ''white_check_mark'', error_reaction = ''x'',
      icon_url = ''https://icon'', icon_title = ''Slack'',
      sync_reaction = ''speech_balloon'', app_name = ''Bot''\<rparr>"

definition example_slack :: slack_state where
  "example_slack =
     \<lparr>bot_id = ''B1'', channel_names = (\<lambda>_. ''general''),
      permalinks = (\<lambda>c t. ''https://slack/'' @ c @ ''/'' @ t),
      reactions = (\<lambda>_. []), faults = []\<rparr>"

definition example_event :: mention_event where
  "example_event =
     \<lparr>message_ts = ''2.0'', channel_id = ''C1'', thread_ts = ''1.0'',
      sanitized_text = ''PROJ-1''\<rparr>"

definition example_item :: item where
  "example_item =
     [(''jira_issue_id'', ''PROJ-1''), (''slack_thread_id'', ''C1_1.0''),
      (''created_at'', ''2025-01-01T00:00:00+00:00''), (''jira_link_id'', ''7'')]"

definition example_other_item :: item where
  "example_other_item =
     [(''jira_issue_id'', ''PROJ-2''), (''slack_thread_id'', ''C1_1.0''),
      (''created_at'', ''2025-01-01T00:00:00+00:00''), (''jira_link_id'', ''3'')]"

definition example_link :: remote_link where
  "example_link =
     \<lparr>rl_url = ''https://slack/C1/1.0'', rl_title = ''Bot: #general old title'',
      rl_icon_url = ''https://icon'', rl_icon_title = ''Slack''\<rparr>"

text \<open>
  A world with the given table and remote links, whose tracker numbers the next link 9
  and whose clock reads the second of February.
\<close>

definition example_world ::
  "table \<Rightarrow> ((string \<times> string) \<times> remote_link) list \<Rightarrow> world" where
  "example_world tbl links =
     \<lparr>dynamo_db_wrapper = Some tbl,
      jira_wrapper = Some \<lparr>remote_links = links, next_link_id = 9\<rparr>,
      slack_sdk_wrapper = example_slack,
      clock = ''2025-02-02T00:00:00+00:00'', log = []\<rparr>"

text \<open>A workflow body that raises \<open>NotHandledException\<close>.\<close>

definition raise_not_handled :: "'a event_scheme \<Rightarrow> world \<Rightarrow> exn option \<times> world" where
  "raise_not_handled self w = raise (NotHandledException ''missing data'') w"

text \<open>
  A world whose source message carries a mark of the bot and marks of other users,
  with the given outcomes scheduled for the reactions API.
\<close>

definition example_marked_world :: "exn option list \<Rightarrow> world" where
  "example_marked_world fs =
     (example_world [] [])
       \<lparr>slack_sdk_wrapper := example_slack
          \<lparr>reactions := (\<lambda>_. [])((''C1'', ''2.0'') :=
              [\<lparr>r_name = Some ''x'', r_users = [''B1'', ''U2'']\<rparr>,
               \<lparr>r_name = Some ''eyes'', r_users = [''U3'']\<rparr>]),
           faults := fs\<rparr>\<rparr>"

section \<open>Properties of the markup and of the file names\<close>

lemma endswith_iff_suffix: "endswith s suf \<longleftrightarrow> suffix suf s"
proof
  assume "endswith s suf"
  then have "s = take (length s - length suf) s @ suf"
    by (metis append_take_drop_id endswith_def)
  then show "suffix suf s"
    by (metis suffixI)
next
  assume "suffix suf s"
  then obtain pre where "s = pre @ suf"
    by (auto simp: suffix_def)
  then show "endswith s suf"
    by (simp add: endswith_def)
qed

lemma endswith_any_iff: "endswith_any s sufs \<longleftrightarrow> (\<exists>e \<in> set sufs. suffix e s)"
  by (simp add: endswith_any_def list_ex_iff endswith_iff_suffix)

lemma stem_suffix: "path_stem p @ path_suffix p = path_name p"
  by (simp add: path_stem_def path_suffix_def Let_def split: option.splits)

text \<open>
  Claim C8. The markup of a file name depends on the file name alone. A name that ends
  with one of the four image extensions is rendered as the inline thumbnail
  \<open>!name|thumbnail!\<close>, every other name as the attachment link \<open>[^name]\<close>. In particular
  the markup of any name ending in \<open>.png\<close> starts with \<open>!\<close> and contains \<open>|thumbnail!\<close>,
  and the markup of any name ending in \<open>.pdf\<close> starts with \<open>[^\<close> and ends with \<open>]\<close>.
\<close>

theorem filename_to_jira_markup_cases:
  "filename_to_jira_markup f =
     (if \<exists>e \<in> set IMAGE_EXTENSIONS. suffix e f
      then ''!'' @ f @ ''|thumbnail!'' else ''[^'' @ f @ '']'')
   \<and> prefix ''!'' (filename_to_jira_markup (s @ ''.png''))
   \<and> sublist ''|thumbnail!'' (filename_to_jira_markup (s @ ''.png''))
   \<and> prefix ''[^'' (filename_to_jira_markup (t @ ''.pdf''))
   \<and> suffix '']'' (filename_to_jira_markup (t @ ''.pdf''))"
proof -
  have png: "endswith_any (s @ ''.png'') IMAGE_EXTENSIONS"
    by (simp add: endswith_any_iff IMAGE_EXTENSIONS_def suffix_def)
  have pdf: "\<not> endswith_any (t @ ''.pdf'') IMAGE_EXTENSIONS"
    by (simp add: endswith_any_iff IMAGE_EXTENSIONS_def suffix_def)
  have sub: "sublist ''|thumbnail!'' ((''!'' @ s @ ''.png'') @ ''|thumbnail!'' @ [])"
    by (rule sublist_appendI)
  have cases: "filename_to_jira_markup f =
     (if \<exists>e \<in> set IMAGE_EXTENSIONS. suffix e f
      then ''!'' @ f @ ''|thumbnail!'' else ''[^'' @ f @ '']'')"
    by (simp add: filename_to_jira_markup_def endswith_any_iff)
  have p1: "prefix ''!'' (filename_to_jira_markup (s @ ''.png''))"
    using png by (simp add: filename_to_jira_markup_def)
  have p2: "sublist ''|thumbnail!'' (filename_to_jira_markup (s @ ''.png''))"
    using png sub by (simp add: filename_to_jira_markup_def)
  have p3: "prefix ''[^'' (filename_to_jira_markup (t @ ''.pdf''))"
    using pdf by (simp add: filename_to_jira_markup_def)
  have p4: "suffix '']'' (filename_to_jira_markup (t @ ''.pdf''))"
    using pdf by (simp add: filename_to_jira_markup_def suffix_def)
  show ?thesis
    using cases p1 p2 p3 p4 by blast
qed

theorem filename_to_jira_markup_cases_witness:
  "filename_to_jira_markup ''a.png'' = ''!a.png|thumbnail!''
   \<and> filename_to_jira_markup ''a.pdf'' = ''[^a.pdf]''
   \<and> prefix ''!'' (filename_to_jira_markup ''a.png'')
   \<and> sublist ''|thumbnail!'' (filename_to_jira_markup ''a.png'')
   \<and> prefix ''[^'' (filename_to_jira_markup ''a.pdf'')
   \<and> suffix '']'' (filename_to_jira_markup ''a.pdf'')"
  using filename_to_jira_markup_cases [of "''a.png''" "''a''" "''a''"]
    filename_to_jira_markup_cases [of "''a.pdf''" "''a''" "''a''"]
  by (simp add: IMAGE_EXTENSIONS_def suffix_def)

text \<open>
  Claim C5, as the code has it. The uploaded file is named after the whole final
  component of the original name, extension included: the stem, the extension, then
  \<open>-\<close>, the file index, \<open>-\<close>, the channel id, \<open>-\<close>, the message id, \<open>-\<close>, the
  timestamp taken when the transfer object was created, and the extension once more.
  A file with an extension therefore carries it twice.
\<close>

theorem new_filename_form:
  "new_filename (transfer_init slack_tok jira_tok url chan msg now) filename file_id =
     path_stem filename @ path_suffix filename @ ''-'' @ string_of_nat file_id @ ''-''
     @ chan @ ''-'' @ msg @ ''-'' @ format_ts now @ path_suffix filename"
  using stem_suffix [of filename] by (simp add: new_filename_def transfer_init_def)

text \<open>
  The form \<open>stem-index-channel-message-timestamp.ext\<close> is not what the code produces:
  for \<open>report.pdf\<close> the upload is named \<open>report.pdf-0-\<dots>.pdf\<close>.
\<close>

theorem new_filename_counterexample:
  "new_filename (transfer_init ''st'' ''jt'' ''https://jira'' ''C1'' ''1700000000123456''
       \<lparr>year = 2024, month = 1, day = 7, hour = 15, minute = 30, second = 45,
        microsecond = 123456\<rparr>) ''report.pdf'' 0
   \<noteq> ''report-0-C1-1700000000123456-20240107-153045123.pdf''"
  by (simp add: new_filename_def transfer_init_def format_ts_def zpad_def path_name_def
      path_suffix_def string_of_nat.simps digit_char_def)

section \<open>Properties of the collected results\<close>

lemma upload_result_cases:
  "i < length waits \<Longrightarrow>
   download_and_process_file self filename file_id waits ! i =
     (case process_jira_upload self filename file_id (waits ! i) of
        Returned v \<Rightarrow> (if is_exception_or_none v then PyStr [] else v)
      | Raised e \<Rightarrow> (if is_Exception e then PyStr [] else PyExc e)
      | Cancelled \<Rightarrow> PyExc AsyncioCancelledError)"
  by (simp add: download_and_process_file_def gather_return_exceptions_def
      is_exception_or_none_def split: task_outcome.splits)

text \<open>
  An upload that completes gives the markup of the new file name, and an upload that
  raises or times out gives the empty string.
\<close>

lemma upload_result_uncancelled:
  assumes "i < length waits"
  shows "waits ! i = PostDone \<Longrightarrow>
           download_and_process_file self filename file_id waits ! i
             = PyStr (filename_to_jira_markup (new_filename self filename file_id))"
    and "waits ! i = WaitTimedOut \<Longrightarrow>
           download_and_process_file self filename file_id waits ! i = PyStr []"
    and "waits ! i = PostRaised e \<Longrightarrow> is_Exception e \<Longrightarrow>
           download_and_process_file self filename file_id waits ! i = PyStr []"
  using assms
  by (simp_all add: upload_result_cases process_jira_upload_def is_exception_or_none_def)

text \<open>
  Claim C2, where the code departs from it. The result collected for an upload task
  that was cancelled is the \<open>CancelledError\<close> object that \<open>gather\<close> returns for it, not
  the empty string: \<open>CancelledError\<close> is not an instance of \<open>Exception\<close>, so the test
  that replaces exceptions by the empty string lets it through. The row that
  \<open>transfer\<close> returns for the file carries the object as well.
\<close>

theorem cancelled_upload_is_not_the_empty_string:
  "download_and_process_file
     (transfer_init ''st'' ''jt'' ''https://jira'' ''C1'' ''1700000000123456''
        \<lparr>year = 2024, month = 1, day = 7, hour = 15, minute = 30, second = 45,
         microsecond = 123456\<rparr>)
     ''report.pdf'' 0 [TaskCancelled]
     = [PyExc AsyncioCancelledError]
   \<and> download_and_process_file
     (transfer_init ''st'' ''jt'' ''https://jira'' ''C1'' ''1700000000123456''
        \<lparr>year = 2024, month = 1, day = 7, hour = 15, minute = 30, second = 45,
         microsecond = 123456\<rparr>)
     ''report.pdf'' 0 [TaskCancelled]
     \<noteq> [PyStr []]
   \<and> transfer 1
       [Returned (PyList (download_and_process_file
          (transfer_init ''st'' ''jt'' ''https://jira'' ''C1'' ''1700000000123456''
             \<lparr>year = 2024, month = 1, day = 7, hour = 15, minute = 30, second = 45,
              microsecond = 123456\<rparr>)
          ''report.pdf'' 0 [TaskCancelled]))]
     = [PyList [PyExc AsyncioCancelledError]]"
  by (simp add: download_and_process_file_def transfer_def gather_return_exceptions_def
      process_jira_upload_def is_exception_or_none_def)

section \<open>Properties of the sanitised mention\<close>














































section \<open>Properties of the stored items and of the table\<close>

lemma dict_get_Nil: "dict_get [] a = None"
  by (simp add: dict_get_def)

lemma dict_get_Cons: "dict_get ((k, v) # d) a = (if a = k then Some v else dict_get d a)"
  by (simp add: dict_get_def)

lemma dict_get_None_iff: "dict_get d a = None \<longleftrightarrow> a \<notin> fst ` set d"
  by (simp add: dict_get_def map_of_eq_None_iff)

lemma dict_get_dict_set:
  "dict_get (dict_set d k v) a = (if a = k then Some v else dict_get d a)"
  by (induction d k v rule: dict_set.induct) (auto simp: dict_get_def)

lemma keys_dict_set: "set (map fst (dict_set d k v)) = insert k (set (map fst d))"
  by (induction d k v rule: dict_set.induct) auto

lemma distinct_dict_set:
  "distinct (map fst d) \<Longrightarrow> distinct (map fst (dict_set d k v))"
proof (induction d k v rule: dict_set.induct)
  case (1 k v)
  then show ?case by simp
next
  case (2 k' v' d k v)
  then show ?case using keys_dict_set [of d k v] by auto
qed

lemma dict_get_dict_merge:
  "distinct (map fst e) \<Longrightarrow>
   dict_get (dict_merge d e) a = (case dict_get e a of Some v \<Rightarrow> Some v | None \<Rightarrow> dict_get d a)"
proof (induction d e rule: dict_merge.induct)
  case (1 d)
  then show ?case by (simp add: dict_get_def)
next
  case (2 d k v e)
  then have k: "dict_get e k = None"
    by (simp add: dict_get_None_iff)
  have ih: "dict_get (dict_merge (dict_set d k v) e) a =
      (case dict_get e a of Some v \<Rightarrow> Some v | None \<Rightarrow> dict_get (dict_set d k v) a)"
    using 2 by simp
  show ?case
  proof (cases "a = k")
    case True
    then show ?thesis using ih k by (simp add: dict_get_Cons dict_get_dict_set)
  next
    case False
    then show ?thesis using ih
      by (simp add: dict_get_Cons dict_get_dict_set split: option.splits)
  qed
qed

lemma distinct_dict_merge:
  "distinct (map fst d) \<Longrightarrow> distinct (map fst (dict_merge d e))"
  by (induction d e rule: dict_merge.induct) (auto simp: distinct_dict_set)

lemma key_matches_dynamodb_key:
  "key_matches (dynamodb_key i t) it \<longleftrightarrow> primary_key it = (Some t, Some i)"
  by (auto simp: key_matches_def dynamodb_key_def primary_key_def)

lemma distinct_registration_item:
  "distinct (map fst key) \<Longrightarrow> distinct (map fst (registration_item key ex now l))"
  by (simp add: registration_item_def distinct_dict_set distinct_dict_merge)

lemma dict_get_registration_item:
  "distinct (map fst ex) \<Longrightarrow>
   dict_get (registration_item key ex now l) a =
     (if a = ''jira_link_id'' then Some l
      else if a = ''created_at'' then Some now
      else case dict_get ex a of Some v \<Rightarrow> Some v | None \<Rightarrow> dict_get key a)"
  by (simp add: registration_item_def dict_get_dict_set dict_get_dict_merge)

lemma primary_key_registration_item:
  assumes "distinct (map fst ex)" and "ex = [] \<or> primary_key ex = (Some t, Some i)"
  shows "primary_key (registration_item (dynamodb_key i t) ex now l) = (Some t, Some i)"
proof -
  have "dict_get (registration_item (dynamodb_key i t) ex now l) ''slack_thread_id'' = Some t"
    using assms
    by (auto simp: primary_key_def dict_get_registration_item dynamodb_key_def dict_get_Cons
        dict_get_Nil)
  moreover
  have "dict_get (registration_item (dynamodb_key i t) ex now l) ''jira_issue_id'' = Some i"
    using assms
    by (auto simp: primary_key_def dict_get_registration_item dynamodb_key_def dict_get_Cons
        dict_get_Nil)
  ultimately show ?thesis by (simp add: primary_key_def)
qed

lemma table_put_item_others:
  "filter (\<lambda>x. primary_key x \<noteq> primary_key it) (table_put_item tbl it)
     = filter (\<lambda>x. primary_key x \<noteq> primary_key it) tbl"
  by (induction tbl) auto

lemma table_put_item_keys:
  "set (map primary_key (table_put_item tbl it)) = insert (primary_key it) (set (map primary_key tbl))"
  by (induction tbl) auto

lemma table_put_item_distinct:
  "distinct (map primary_key tbl) \<Longrightarrow> distinct (map primary_key (table_put_item tbl it))"
proof (induction tbl)
  case Nil
  then show ?case by simp
next
  case (Cons x xs)
  then show ?case using table_put_item_keys [of xs it] by auto
qed

lemma table_put_item_same:
  "distinct (map primary_key tbl) \<Longrightarrow>
   filter (\<lambda>x. primary_key x = primary_key it) (table_put_item tbl it) = [it]"
proof (induction tbl)
  case Nil
  then show ?case by simp
next
  case (Cons x xs)
  show ?case
  proof (cases "primary_key x = primary_key it")
    case True
    then have "\<forall>y \<in> set xs. primary_key y \<noteq> primary_key it"
      using Cons.prems by (auto simp: image_iff)
    then have "filter (\<lambda>x. primary_key x = primary_key it) xs = []"
      by (simp add: filter_empty_conv)
    then show ?thesis using True by simp
  next
    case False
    then show ?thesis using Cons by simp
  qed
qed

lemma table_put_item_all:
  "list_all P tbl \<Longrightarrow> P it \<Longrightarrow> list_all P (table_put_item tbl it)"
  by (induction tbl) auto

lemma table_put_item_length:
  "length (table_put_item tbl it) =
     (if primary_key it \<in> set (map primary_key tbl) then length tbl else Suc (length tbl))"
  by (induction tbl) auto

lemma table_put_item_in_place:
  "n < length tbl \<Longrightarrow> primary_key (tbl ! n) = primary_key it \<Longrightarrow>
   distinct (map primary_key tbl) \<Longrightarrow> table_put_item tbl it = tbl[n := it]"
proof (induction tbl arbitrary: n)
  case Nil
  then show ?case by simp
next
  case (Cons x xs)
  show ?case
  proof (cases n)
    case 0
    then show ?thesis using Cons.prems by simp
  next
    case (Suc m)
    then have "primary_key (xs ! m) = primary_key it" "m < length xs"
      using Cons.prems by auto
    moreover have "primary_key x \<noteq> primary_key (xs ! m)"
      using Cons.prems(3) \<open>m < length xs\<close> by (metis distinct.simps(2) list.simps(9) nth_map nth_mem length_map)
    ultimately show ?thesis using Cons Suc by auto
  qed
qed

lemma hd_split_maxsplit1: "split_maxsplit1 s \<noteq> [] \<and> length (split_maxsplit1 s) \<ge> 1"
  by (simp add: split_maxsplit1_def)


lemma table_get_item_SomeD:
  "table_get_item tbl key = Some it \<Longrightarrow> it \<in> set tbl \<and> key_matches key it"
  by (auto simp: table_get_item_def find_Some_iff)

lemma table_get_item_None_iff:
  "table_get_item tbl key = None \<longleftrightarrow> (\<forall>it \<in> set tbl. \<not> key_matches key it)"
  by (auto simp: table_get_item_def find_None_iff)

lemma key_matches_nonempty: "key_matches (dynamodb_key i t) it \<Longrightarrow> it \<noteq> []"
  by (auto simp: key_matches_def dynamodb_key_def dict_get_Nil)

lemma validate_link_nominal:
  "validate_link j i l = Inr (map_of (remote_links j) (i, l) \<noteq> None)"
  by (simp add: validate_link_def get_issue_remote_link_by_id_def split: option.splits)

lemma registered_valid_link_Some:
  assumes "ex \<noteq> []" and "dict_get ex ''jira_link_id'' = Some l" and "l \<noteq> []"
    and "map_of (remote_links j) (i, l) = Some rl"
  shows "registered_valid_link j i ex = Inr (Some l)"
  using assms by (simp add: registered_valid_link_def validate_link_nominal)

lemma registered_valid_link_None:
  assumes "\<not> (ex \<noteq> [] \<and> (\<exists>l. dict_get ex ''jira_link_id'' = Some l \<and> l \<noteq> []
             \<and> map_of (remote_links j) (i, l) \<noteq> None))"
  shows "registered_valid_link j i ex = Inr None"
  using assms
  by (auto simp: registered_valid_link_def validate_link_nominal split: option.splits)

lemma register_unfold:
  assumes "sanitized_text self \<noteq> []" and "dynamo_db_wrapper w = Some tbl"
    and "jira_wrapper w = Some j"
  shows "register_process_event cfg self w =
     (case registered_valid_link j (register_issue_id self)
             (case table_get_item tbl (register_key self) of None \<Rightarrow> [] | Some it \<Rightarrow> it) of
        Inl e \<Rightarrow> raise e w
      | Inr (Some l) \<Rightarrow>
          (case update_link j (register_issue_id self) l (register_thread_link self w)
                  (register_link_title cfg self w) of
             (Some e, j') \<Rightarrow> raise e (w\<lparr>jira_wrapper := Some j'\<rparr>)
           | (None, j') \<Rightarrow>
               (None, w\<lparr>jira_wrapper := Some j',
                  dynamo_db_wrapper := Some (table_put_item tbl
                    (registration_item (register_key self)
                       (case table_get_item tbl (register_key self) of
                          None \<Rightarrow> [] | Some it \<Rightarrow> it) (clock w) l))\<rparr>))
      | Inr None \<Rightarrow>
          (None, w\<lparr>jira_wrapper :=
               Some (snd (add_link j (register_issue_id self) (register_thread_link self w)
                       (register_link_title cfg self w) (icon_url cfg) (icon_title cfg))),
             dynamo_db_wrapper := Some (table_put_item tbl
               (registration_item (register_key self)
                  (case table_get_item tbl (register_key self) of
                     None \<Rightarrow> [] | Some it \<Rightarrow> it) (clock w)
                  (string_of_nat (next_link_id j))))\<rparr>))"
  using assms hd_split_maxsplit1 [of "sanitized_text self"]
  by (simp add: register_process_event_def Let_def register_issue_id_def register_key_def
      register_link_title_def register_thread_link_def get_item_def put_item_def add_link_def
      create_or_update_issue_remote_links_def
      split: sum.splits option.splits prod.splits list.splits)


lemma table_put_item_append:
  "primary_key it \<notin> set (map primary_key tbl) \<Longrightarrow> table_put_item tbl it = tbl @ [it]"
  by (induction tbl) auto

lemma find_of_filter_single: "filter P xs = [x] \<Longrightarrow> find P xs = Some x"
  by (induction xs) (auto split: if_splits)

lemma update_link_existing:
  "map_of (remote_links j) (i, l) = Some rl \<Longrightarrow>
   update_link j i l url title =
     (None, j\<lparr>remote_links :=
        alist_update (i, l) (rl\<lparr>rl_url := url, rl_title := title\<rparr>) (remote_links j)\<rparr>)"
  by (simp add: update_link_def update_issue_remote_link_by_id_def)

text \<open>What a successful run stores and which tracker state it leaves.\<close>

lemma register_run:
  assumes ne_text: "sanitized_text self \<noteq> []" and tbl: "dynamo_db_wrapper w = Some tbl"
    and j: "jira_wrapper w = Some j"
  defines "ex \<equiv> (case table_get_item tbl (register_key self) of None \<Rightarrow> [] | Some it \<Rightarrow> it)"
  shows "\<exists>l j'. register_process_event cfg self w =
           (None, w\<lparr>jira_wrapper := Some j',
              dynamo_db_wrapper := Some (table_put_item tbl
                (registration_item (register_key self) ex (clock w) l))\<rparr>)
         \<and> (\<forall>it l0 rl. table_get_item tbl (register_key self) = Some it
               \<and> dict_get it ''jira_link_id'' = Some l0 \<and> l0 \<noteq> []
               \<and> map_of (remote_links j) (register_issue_id self, l0) = Some rl
             \<longrightarrow> l = l0
                 \<and> j' = j\<lparr>remote_links :=
                      alist_update (register_issue_id self, l0)
                        (rl\<lparr>rl_url := register_thread_link self w,
                            rl_title := register_link_title cfg self w\<rparr>) (remote_links j)\<rparr>)
         \<and> ((\<forall>it l0. table_get_item tbl (register_key self) = Some it
                \<and> dict_get it ''jira_link_id'' = Some l0 \<and> l0 \<noteq> []
              \<longrightarrow> map_of (remote_links j) (register_issue_id self, l0) = None)
             \<longrightarrow> l = string_of_nat (next_link_id j)
                 \<and> j' = j\<lparr>remote_links := remote_links j @
                        [((register_issue_id self, string_of_nat (next_link_id j)),
                          \<lparr>rl_url = register_thread_link self w,
                           rl_title = register_link_title cfg self w,
                           rl_icon_url = icon_url cfg, rl_icon_title = icon_title cfg\<rparr>)],
                      next_link_id := Suc (next_link_id j)\<rparr>)"
proof (cases "ex \<noteq> [] \<and> (\<exists>l. dict_get ex ''jira_link_id'' = Some l \<and> l \<noteq> []
             \<and> map_of (remote_links j) (register_issue_id self, l) \<noteq> None)")
  case True
  then obtain l rl where l: "dict_get ex ''jira_link_id'' = Some l" "l \<noteq> []"
      "map_of (remote_links j) (register_issue_id self, l) = Some rl" and ne: "ex \<noteq> []"
    by auto
  from ne obtain it where it: "table_get_item tbl (register_key self) = Some it" "ex = it"
    by (auto simp: ex_def split: option.splits)
  have v: "registered_valid_link j (register_issue_id self) ex = Inr (Some l)"
    using ne l by (rule registered_valid_link_Some)
  have "register_process_event cfg self w =
     (None, w\<lparr>jira_wrapper := Some (j\<lparr>remote_links :=
                      alist_update (register_issue_id self, l)
                        (rl\<lparr>rl_url := register_thread_link self w,
                            rl_title := register_link_title cfg self w\<rparr>) (remote_links j)\<rparr>),
              dynamo_db_wrapper := Some (table_put_item tbl
                (registration_item (register_key self) ex (clock w) l))\<rparr>)"
    using register_unfold [OF ne_text tbl j, of cfg] v update_link_existing [OF l(3)]
    by (simp add: ex_def)
  then show ?thesis using it l by auto
next
  case False
  then have v: "registered_valid_link j (register_issue_id self) ex = Inr None"
    by (rule registered_valid_link_None)
  have run: "register_process_event cfg self w =
     (None, w\<lparr>jira_wrapper := Some (j\<lparr>remote_links := remote_links j @
                        [((register_issue_id self, string_of_nat (next_link_id j)),
                          \<lparr>rl_url = register_thread_link self w,
                           rl_title = register_link_title cfg self w,
                           rl_icon_url = icon_url cfg, rl_icon_title = icon_title cfg\<rparr>)],
                      next_link_id := Suc (next_link_id j)\<rparr>),
              dynamo_db_wrapper := Some (table_put_item tbl
                (registration_item (register_key self) ex (clock w)
                   (string_of_nat (next_link_id j))))\<rparr>)"
    using register_unfold [OF ne_text tbl j, of cfg] v
    by (simp add: ex_def add_link_def create_or_update_issue_remote_links_def)
  have "\<not> (\<exists>it l0 rl. table_get_item tbl (register_key self) = Some it
               \<and> dict_get it ''jira_link_id'' = Some l0 \<and> l0 \<noteq> []
               \<and> map_of (remote_links j) (register_issue_id self, l0) = Some rl)"
  proof
    assume "\<exists>it l0 rl. table_get_item tbl (register_key self) = Some it
               \<and> dict_get it ''jira_link_id'' = Some l0 \<and> l0 \<noteq> []
               \<and> map_of (remote_links j) (register_issue_id self, l0) = Some rl"
    then obtain it l0 rl where h: "table_get_item tbl (register_key self) = Some it"
        "dict_get it ''jira_link_id'' = Some l0" "l0 \<noteq> []"
        "map_of (remote_links j) (register_issue_id self, l0) = Some rl"
      by blast
    then have "ex = it" by (simp add: ex_def)
    moreover have "it \<noteq> []"
      using table_get_item_SomeD [OF h(1)] key_matches_nonempty
      by (auto simp: register_key_def)
    ultimately show False using False h by auto
  qed
  then show ?thesis using run by blast
qed


lemma key_matches_register_key:
  "key_matches (register_key self) it \<longleftrightarrow>
   primary_key it = (Some (get_thread_id (thread_ts self) (channel_id self)),
                     Some (register_issue_id self))"
  by (simp add: register_key_def key_matches_dynamodb_key)

lemma existing_item_facts:
  fixes self :: mention_event
  assumes "wf_table tbl"
  defines "ex \<equiv> (case table_get_item tbl (register_key self) of None \<Rightarrow> [] | Some it \<Rightarrow> it)"
  shows "distinct (map fst ex)"
    and "ex = [] \<or> primary_key ex = (Some (get_thread_id (thread_ts self) (channel_id self)),
                     Some (register_issue_id self))"
proof -
  show "distinct (map fst ex)"
  proof (cases "table_get_item tbl (register_key self)")
    case None
    then show ?thesis by (simp add: ex_def)
  next
    case (Some it)
    then have "it \<in> set tbl" using table_get_item_SomeD by blast
    then have "distinct (map fst it)"
      using assms(1) by (auto simp: wf_table_def list_all_iff)
    then show ?thesis using Some by (simp add: ex_def)
  qed
  show "ex = [] \<or> primary_key ex = (Some (get_thread_id (thread_ts self) (channel_id self)),
                     Some (register_issue_id self))"
  proof (cases "table_get_item tbl (register_key self)")
    case None
    then show ?thesis by (simp add: ex_def)
  next
    case (Some it)
    then have "key_matches (register_key self) it" using table_get_item_SomeD by blast
    then show ?thesis using Some by (simp add: ex_def key_matches_register_key)
  qed
qed

text \<open>The table after a write of an item that carries the workflow's key.\<close>

lemma table_after_put:
  assumes wf: "wf_table tbl" and d: "distinct (map fst it')"
    and pk: "primary_key it' = (Some (get_thread_id (thread_ts self) (channel_id self)),
                     Some (register_issue_id self))"
  shows "wf_table (table_put_item tbl it')"
    and "filter (key_matches (register_key self)) (table_put_item tbl it') = [it']"
    and "filter (\<lambda>it. \<not> key_matches (register_key self) it) (table_put_item tbl it')
           = filter (\<lambda>it. \<not> key_matches (register_key self) it) tbl"
    and "\<forall>n. n < length tbl \<and> key_matches (register_key self) (tbl ! n)
           \<longrightarrow> table_put_item tbl it' = tbl[n := it']"
    and "table_get_item tbl (register_key self) = None
           \<longrightarrow> table_put_item tbl it' = tbl @ [it']"
    and "table_get_item (table_put_item tbl it') (register_key self) = Some it'"
proof -
  have km: "key_matches (register_key self) = (\<lambda>it. primary_key it = primary_key it')"
    by (rule ext) (simp add: key_matches_register_key pk)
  show "wf_table (table_put_item tbl it')"
    using wf d by (simp add: wf_table_def table_put_item_distinct table_put_item_all)
  show same: "filter (key_matches (register_key self)) (table_put_item tbl it') = [it']"
    using wf by (simp add: km wf_table_def table_put_item_same)
  show "filter (\<lambda>it. \<not> key_matches (register_key self) it) (table_put_item tbl it')
           = filter (\<lambda>it. \<not> key_matches (register_key self) it) tbl"
    by (simp add: km table_put_item_others)
  show "\<forall>n. n < length tbl \<and> key_matches (register_key self) (tbl ! n)
           \<longrightarrow> table_put_item tbl it' = tbl[n := it']"
    using wf by (simp add: km wf_table_def table_put_item_in_place)
  show "table_get_item tbl (register_key self) = None
           \<longrightarrow> table_put_item tbl it' = tbl @ [it']"
  proof
    assume "table_get_item tbl (register_key self) = None"
    then have "\<forall>it \<in> set tbl. primary_key it \<noteq> primary_key it'"
      by (simp add: table_get_item_None_iff km)
    then have "primary_key it' \<notin> set (map primary_key tbl)" by auto
    then show "table_put_item tbl it' = tbl @ [it']" by (rule table_put_item_append)
  qed
  show "table_get_item (table_put_item tbl it') (register_key self) = Some it'"
    using same by (simp add: table_get_item_def find_of_filter_single)
qed

lemma registration_item_facts:
  fixes self :: mention_event and now l :: string
  assumes wf: "wf_table tbl"
  defines "ex \<equiv> (case table_get_item tbl (register_key self) of None \<Rightarrow> [] | Some it \<Rightarrow> it)"
  defines "it' \<equiv> registration_item (register_key self) ex now l"
  shows "distinct (map fst it')"
    and "primary_key it' = (Some (get_thread_id (thread_ts self) (channel_id self)),
                     Some (register_issue_id self))"
    and "dict_get it' ''jira_link_id'' = Some l"
    and "dict_get it' ''created_at'' = Some now"
    and "\<forall>it a. table_get_item tbl (register_key self) = Some it
            \<and> a \<noteq> ''created_at'' \<and> a \<noteq> ''jira_link_id''
           \<longrightarrow> dict_get it' a = dict_get it a"
proof -
  have dex: "distinct (map fst ex)"
    unfolding ex_def using wf by (rule existing_item_facts(1))
  have pex: "ex = [] \<or> primary_key ex = (Some (get_thread_id (thread_ts self) (channel_id self)),
                     Some (register_issue_id self))"
    unfolding ex_def using wf by (rule existing_item_facts(2))
  show "distinct (map fst it')"
    unfolding it'_def
    by (rule distinct_registration_item) (simp add: register_key_def dynamodb_key_def)
  show "primary_key it' = (Some (get_thread_id (thread_ts self) (channel_id self)),
                     Some (register_issue_id self))"
    unfolding it'_def register_key_def using dex pex by (rule primary_key_registration_item)
  show "dict_get it' ''jira_link_id'' = Some l"
    using dex by (simp add: it'_def dict_get_registration_item)
  show "dict_get it' ''created_at'' = Some now"
    using dex by (simp add: it'_def dict_get_registration_item)
  show "\<forall>it a. table_get_item tbl (register_key self) = Some it
            \<and> a \<noteq> ''created_at'' \<and> a \<noteq> ''jira_link_id''
           \<longrightarrow> dict_get it' a = dict_get it a"
  proof (intro allI impI)
    fix it a
    assume h: "table_get_item tbl (register_key self) = Some it
            \<and> a \<noteq> ''created_at'' \<and> a \<noteq> ''jira_link_id''"
    then have e: "ex = it" by (simp add: ex_def)
    have "key_matches (register_key self) it" using h table_get_item_SomeD by blast
    then have keys: "dict_get it ''slack_thread_id'' \<noteq> None" "dict_get it ''jira_issue_id'' \<noteq> None"
      by (auto simp: key_matches_register_key primary_key_def)
    have "dict_get it a = None \<Longrightarrow> dict_get (register_key self) a = None"
      using keys by (auto simp: register_key_def dynamodb_key_def dict_get_Cons dict_get_Nil)
    then show "dict_get it' a = dict_get it a"
      using h dex e by (auto simp: it'_def dict_get_registration_item split: option.splits)
  qed
qed


lemma split_on_single: "c \<notin> set s \<Longrightarrow> split_on c s = [s]"
  by (induction s) auto

lemma split_on_length: "c \<in> set s \<Longrightarrow> 2 \<le> length (split_on c s)"
proof (induction s)
  case Nil
  then show ?case by simp
next
  case (Cons x xs)
  show ?case
  proof (cases "x = c")
    case True
    have "split_on c xs \<noteq> []" by (cases xs) (auto split: list.splits)
    then have "1 \<le> length (split_on c xs)" by (cases "split_on c xs") auto
    then show ?thesis using True by simp
  next
    case False
    then have "c \<in> set xs" using Cons.prems by simp
    then have "2 \<le> length (split_on c xs)" by (rule Cons.IH)
    then show ?thesis using False by (auto split: list.splits)
  qed
qed

lemma deregister_not_found:
  assumes "dynamo_db_wrapper w = Some tbl" and "jira_wrapper w = Some j"
    and "sanitized_text self \<noteq> []" and "CHR '' '' \<notin> set (sanitized_text self)"
    and "table_get_item tbl (dynamodb_key (sanitized_text self)
           (get_thread_id (thread_ts self) (channel_id self))) = None"
  shows "deregister_process_event self w =
     (Some (IgnorableException (NoJiraLinkInformation
        (dynamodb_key (sanitized_text self) (get_thread_id (thread_ts self) (channel_id self))))), w)"
  using assms
  by (simp add: deregister_process_event_def split_on_single get_item_def dict_get_def raise_def)


lemma deregister_never_not_registered:
  "fst (deregister_process_event self w)
     \<noteq> Some (IgnorableException (NotRegisteredToThread i t c))"
  by (auto simp: deregister_process_event_def raise_def get_item_def Let_def
      split: option.splits prod.splits)

lemma get_item_found:
  "\<exists>it \<in> set tbl. key_matches key it \<Longrightarrow>
   \<exists>it \<in> set tbl. key_matches key it \<and> get_item tbl key = Some it"
proof -
  assume "\<exists>it \<in> set tbl. key_matches key it"
  then have "table_get_item tbl key \<noteq> None"
    by (simp add: table_get_item_None_iff)
  then obtain it where it: "table_get_item tbl key = Some it" by auto
  then have "it \<in> set tbl \<and> key_matches key it" by (rule table_get_item_SomeD)
  then show ?thesis using it by (auto simp: get_item_def)
qed

lemmas example_defs = example_config_def example_slack_def example_event_def example_item_def
  example_other_item_def example_link_def example_world_def

lemmas workflow_defs = register_process_event_def deregister_process_event_def raise_def
  split_maxsplit1_def get_item_def put_item_def delete_item_def table_get_item_def
  table_delete_item_def key_matches_def dynamodb_key_def dict_get_def primary_key_def
  registered_valid_link_def validate_link_def get_issue_remote_link_by_id_def update_link_def
  update_issue_remote_link_by_id_def add_link_def create_or_update_issue_remote_links_def
  remove_link_def delete_issue_remote_link_by_id_def registration_item_def get_thread_id_def
  get_channel_name_def get_message_link_def get_link_title_def wf_table_def
  register_issue_id_def register_key_def register_link_title_def register_thread_link_def
  stored_registration_def string_of_nat.simps digit_char_def Let_def

section \<open>Properties of the deregister workflow\<close>





text \<open>
  Claim C9. \<open>get_item\<close> never returns \<open>None\<close>: it returns an item of the table that
  carries the key, or the empty dictionary when the table has no such item. The
  deregister workflow therefore never raises its \<open>not registered to thread\<close> error, and
  when its command is a single issue id, both wrappers are present and the store holds
  no registration under the key, it raises the \<open>No jira link information\<close> error and
  leaves the world unchanged.
\<close>

theorem get_item_never_none:
  "get_item tbl key \<noteq> None
   \<and> ((\<forall>it \<in> set tbl. \<not> key_matches key it) \<longrightarrow> get_item tbl key = Some [])
   \<and> (\<forall>it. get_item tbl key = Some it \<and> it \<noteq> [] \<longrightarrow> it \<in> set tbl \<and> key_matches key it)
   \<and> ((\<exists>it \<in> set tbl. key_matches key it)
        \<longrightarrow> (\<exists>it \<in> set tbl. key_matches key it \<and> get_item tbl key = Some it))
   \<and> fst (deregister_process_event self w)
        \<noteq> Some (IgnorableException (NotRegisteredToThread i t c))
   \<and> (dynamo_db_wrapper w = Some tbl' \<and> jira_wrapper w = Some j
        \<and> sanitized_text self \<noteq> [] \<and> CHR '' '' \<notin> set (sanitized_text self)
        \<and> stored_registration w (sanitized_text self)
             (get_thread_id (thread_ts self) (channel_id self)) = None
       \<longrightarrow> deregister_process_event self w =
             (Some (IgnorableException (NoJiraLinkInformation
                (dynamodb_key (sanitized_text self)
                   (get_thread_id (thread_ts self) (channel_id self))))), w))"
proof -
  have a: "get_item tbl key \<noteq> None"
    by (simp add: get_item_def)
  have b: "(\<forall>it \<in> set tbl. \<not> key_matches key it) \<longrightarrow> get_item tbl key = Some []"
    using table_get_item_None_iff [of tbl key] by (auto simp: get_item_def)
  have c: "\<forall>it. get_item tbl key = Some it \<and> it \<noteq> [] \<longrightarrow> it \<in> set tbl \<and> key_matches key it"
    using table_get_item_SomeD [of tbl key]
    by (auto simp: get_item_def split: option.splits)
  have d: "(\<exists>it \<in> set tbl. key_matches key it)
        \<longrightarrow> (\<exists>it \<in> set tbl. key_matches key it \<and> get_item tbl key = Some it)"
    using get_item_found [of tbl key] by blast
  have e: "fst (deregister_process_event self w)
        \<noteq> Some (IgnorableException (NotRegisteredToThread i t c))"
    by (rule deregister_never_not_registered)
  have f: "dynamo_db_wrapper w = Some tbl' \<and> jira_wrapper w = Some j
        \<and> sanitized_text self \<noteq> [] \<and> CHR '' '' \<notin> set (sanitized_text self)
        \<and> stored_registration w (sanitized_text self)
             (get_thread_id (thread_ts self) (channel_id self)) = None
       \<longrightarrow> deregister_process_event self w =
             (Some (IgnorableException (NoJiraLinkInformation
                (dynamodb_key (sanitized_text self)
                   (get_thread_id (thread_ts self) (channel_id self))))), w)"
    using deregister_not_found [of w tbl' j self]
    by (auto simp: stored_registration_def)
  show ?thesis
    by (intro conjI a b c d e f)
qed

theorem get_item_never_none_witness:
  "get_item [example_other_item] (dynamodb_key ''PROJ-1'' ''C1_1.0'') = Some []
   \<and> get_item [example_other_item] (dynamodb_key ''PROJ-2'' ''C1_1.0'')
       = Some example_other_item
   \<and> deregister_process_event example_event (example_world [example_other_item] [])
     = (Some (IgnorableException (NoJiraLinkInformation
          (dynamodb_key ''PROJ-1'' ''C1_1.0''))),
        example_world [example_other_item] [])"
proof -
  let ?w = "example_world [example_other_item] []"
  have pre: "dynamo_db_wrapper ?w = Some [example_other_item]
        \<and> jira_wrapper ?w = Some \<lparr>remote_links = [], next_link_id = 9\<rparr>
        \<and> sanitized_text example_event \<noteq> []
        \<and> CHR '' '' \<notin> set (sanitized_text example_event)
        \<and> stored_registration ?w (sanitized_text example_event)
             (get_thread_id (thread_ts example_event) (channel_id example_event)) = None"
    by (simp add: example_defs workflow_defs)
  have none: "\<forall>it \<in> set [example_other_item].
      \<not> key_matches (dynamodb_key ''PROJ-1'' ''C1_1.0'') it"
    by (simp add: example_defs workflow_defs)
  note t = get_item_never_none [of "[example_other_item]" "dynamodb_key ''PROJ-1'' ''C1_1.0''"
      example_event ?w "[]" "[]" "[]" "[example_other_item]"
      "\<lparr>remote_links = [], next_link_id = 9\<rparr>"]
  have g1: "get_item [example_other_item] (dynamodb_key ''PROJ-1'' ''C1_1.0'') = Some []"
    using t none by blast
  have g2: "get_item [example_other_item] (dynamodb_key ''PROJ-2'' ''C1_1.0'')
       = Some example_other_item"
    by (simp add: example_defs workflow_defs)
  have g3: "deregister_process_event example_event ?w
     = (Some (IgnorableException (NoJiraLinkInformation
          (dynamodb_key ''PROJ-1'' ''C1_1.0''))), ?w)"
    using t pre by (simp add: example_event_def get_thread_id_def)
  show ?thesis
    by (intro conjI g1 g2 g3)
qed

section \<open>Properties of the register workflow\<close>



text \<open>
  Claim C10, as the code has it. Every successful run stores the current time as
  \<open>created_at\<close>, also when the registration existed and its link was still valid.
  Of the attributes of an item stored before, every one other than \<open>created_at\<close> and
  \<open>jira_link_id\<close> is carried over unchanged, and \<open>jira_link_id\<close> is carried over when
  the tracker still has the link.
\<close>

theorem register_refreshes_created_at:
  assumes ne_text: "sanitized_text self \<noteq> []" and tbl: "dynamo_db_wrapper w = Some tbl"
    and j: "jira_wrapper w = Some j" and wf: "wf_table tbl"
  shows "\<exists>tbl' it'.
      fst (register_process_event cfg self w) = None
    \<and> dynamo_db_wrapper (snd (register_process_event cfg self w)) = Some tbl'
    \<and> table_get_item tbl' (register_key self) = Some it'
    \<and> dict_get it' ''created_at'' = Some (clock w)
    \<and> (\<forall>it a. table_get_item tbl (register_key self) = Some it
           \<and> a \<noteq> ''created_at'' \<and> a \<noteq> ''jira_link_id''
         \<longrightarrow> dict_get it' a = dict_get it a)
    \<and> (\<forall>it l rl. table_get_item tbl (register_key self) = Some it
           \<and> dict_get it ''jira_link_id'' = Some l \<and> l \<noteq> []
           \<and> map_of (remote_links j) (register_issue_id self, l) = Some rl
         \<longrightarrow> dict_get it' ''jira_link_id'' = dict_get it ''jira_link_id'')"
proof -
  define ex where "ex = (case table_get_item tbl (register_key self) of
                           None \<Rightarrow> [] | Some it \<Rightarrow> it)"
  from register_run [OF ne_text tbl j, of cfg] obtain l j' where
    run: "register_process_event cfg self w =
           (None, w\<lparr>jira_wrapper := Some j',
              dynamo_db_wrapper := Some (table_put_item tbl
                (registration_item (register_key self) ex (clock w) l))\<rparr>)"
    and valid: "\<forall>it l0 rl. table_get_item tbl (register_key self) = Some it
               \<and> dict_get it ''jira_link_id'' = Some l0 \<and> l0 \<noteq> []
               \<and> map_of (remote_links j) (register_issue_id self, l0) = Some rl
             \<longrightarrow> l = l0
                 \<and> j' = j\<lparr>remote_links :=
                      alist_update (register_issue_id self, l0)
                        (rl\<lparr>rl_url := register_thread_link self w,
                            rl_title := register_link_title cfg self w\<rparr>) (remote_links j)\<rparr>"
    unfolding ex_def by blast
  define it' where "it' = registration_item (register_key self) ex (clock w) l"
  have d: "distinct (map fst it')"
    unfolding it'_def ex_def using wf by (rule registration_item_facts(1))
  have pk: "primary_key it' = (Some (get_thread_id (thread_ts self) (channel_id self)),
                     Some (register_issue_id self))"
    unfolding it'_def ex_def using wf by (rule registration_item_facts(2))
  have lid: "dict_get it' ''jira_link_id'' = Some l"
    unfolding it'_def ex_def using wf by (rule registration_item_facts(3))
  have cr: "dict_get it' ''created_at'' = Some (clock w)"
    unfolding it'_def ex_def using wf by (rule registration_item_facts(4))
  have frame: "\<forall>it a. table_get_item tbl (register_key self) = Some it
            \<and> a \<noteq> ''created_at'' \<and> a \<noteq> ''jira_link_id''
           \<longrightarrow> dict_get it' a = dict_get it a"
    unfolding it'_def ex_def using wf by (rule registration_item_facts(5))
  have got: "table_get_item (table_put_item tbl it') (register_key self) = Some it'"
    using wf d pk by (rule table_after_put(6))
  have r1: "fst (register_process_event cfg self w) = None"
    using run by simp
  have r2: "dynamo_db_wrapper (snd (register_process_event cfg self w))
              = Some (table_put_item tbl it')"
    using run by (simp add: it'_def)
  have keep: "\<forall>it l0 rl. table_get_item tbl (register_key self) = Some it
           \<and> dict_get it ''jira_link_id'' = Some l0 \<and> l0 \<noteq> []
           \<and> map_of (remote_links j) (register_issue_id self, l0) = Some rl
         \<longrightarrow> dict_get it' ''jira_link_id'' = dict_get it ''jira_link_id''"
    using valid lid by auto
  show ?thesis
    apply (rule exI [of _ "table_put_item tbl it'"])
    apply (rule exI [of _ it'])
    apply (intro conjI)
         apply (rule r1)
        apply (rule r2)
       apply (rule got)
      apply (rule cr)
     apply (rule frame)
    apply (rule keep)
    done
qed

theorem register_refreshes_created_at_witness:
  "sanitized_text example_event \<noteq> []
   \<and> wf_table [example_other_item, example_item]
   \<and> fst (register_process_event example_config example_event
        (example_world [example_other_item, example_item]
           [((''PROJ-1'', ''7''), example_link)])) = None
   \<and> dynamo_db_wrapper (snd (register_process_event example_config example_event
        (example_world [example_other_item, example_item]
           [((''PROJ-1'', ''7''), example_link)])))
       = Some [example_other_item,
               [(''jira_issue_id'', ''PROJ-1''), (''slack_thread_id'', ''C1_1.0''),
                (''created_at'', ''2025-02-02T00:00:00+00:00''), (''jira_link_id'', ''7'')]]"
proof -
  let ?tbl = "[example_other_item, example_item]"
  let ?j = "\<lparr>remote_links = [((''PROJ-1'', ''7''), example_link)], next_link_id = 9\<rparr>"
  let ?w = "example_world ?tbl [((''PROJ-1'', ''7''), example_link)]"
  have h1: "sanitized_text example_event \<noteq> []"
    by (simp add: example_defs)
  have h2: "dynamo_db_wrapper ?w = Some ?tbl"
    by (simp add: example_world_def)
  have h3: "jira_wrapper ?w = Some ?j"
    by (simp add: example_world_def)
  have h4: "wf_table ?tbl"
    by (simp add: example_defs wf_table_def primary_key_def dict_get_def)
  from register_refreshes_created_at [OF h1 h2 h3 h4, of example_config]
  have a: "fst (register_process_event example_config example_event ?w) = None"
    by auto
  have e1: "dynamo_db_wrapper (snd (register_process_event example_config example_event ?w))
       = Some [example_other_item,
               [(''jira_issue_id'', ''PROJ-1''), (''slack_thread_id'', ''C1_1.0''),
                (''created_at'', ''2025-02-02T00:00:00+00:00''), (''jira_link_id'', ''7'')]]"
    by (simp add: example_defs workflow_defs)
  show ?thesis
    by (intro conjI h1 h4 a e1)
qed

text \<open>
  The \<open>jira_link_id\<close> of a stored item is not carried over when the tracker no longer
  has the link: the item stored with link 7 is rewritten with the new link 9.
\<close>

theorem register_link_id_counterexample:
  "table_get_item [example_other_item, example_item]
       (dynamodb_key ''PROJ-1'' ''C1_1.0'')
     = Some [(''jira_issue_id'', ''PROJ-1''), (''slack_thread_id'', ''C1_1.0''),
             (''created_at'', ''2025-01-01T00:00:00+00:00''), (''jira_link_id'', ''7'')]
   \<and> fst (register_process_event example_config example_event
        (example_world [example_other_item, example_item] [])) = None
   \<and> dynamo_db_wrapper (snd (register_process_event example_config example_event
        (example_world [example_other_item, example_item] [])))
     = Some [example_other_item,
             [(''jira_issue_id'', ''PROJ-1''), (''slack_thread_id'', ''C1_1.0''),
              (''created_at'', ''2025-02-02T00:00:00+00:00''), (''jira_link_id'', ''9'')]]"
  by (simp add: example_defs workflow_defs)

section \<open>Properties of the acknowledgement and of \<open>handle_event\<close>\<close>

lemma pending_faults_add_log [simp]: "pending_faults (add_log entry w) = pending_faults w"
  by (simp add: pending_faults_def add_log_def)

lemma pending_faults_set_reactions [simp]:
  "pending_faults (set_reactions w chan ts rs) = pending_faults w"
  by (simp add: pending_faults_def set_reactions_def)

lemma slack_api_call_faults:
  assumes "slack_api_call w = (x, w')"
  shows "pending_faults w' \<subseteq> pending_faults w" and "x = Some e \<Longrightarrow> Some e \<in> pending_faults w"
  using assms by (auto simp: slack_api_call_def pending_faults_def split: list.splits)

lemma reactions_get_faults:
  assumes "reactions_get w chan ts = (x, w')"
  shows "pending_faults w' \<subseteq> pending_faults w" and "x = Inl e \<Longrightarrow> Some e \<in> pending_faults w"
proof -
  obtain y v where c: "slack_api_call w = (y, v)" by (cases "slack_api_call w")
  show "pending_faults w' \<subseteq> pending_faults w"
    using assms c slack_api_call_faults(1) [OF c]
    by (auto simp: reactions_get_def split: option.splits)
  show "x = Inl e \<Longrightarrow> Some e \<in> pending_faults w"
    using assms c slack_api_call_faults(2) [OF c, of e]
    by (auto simp: reactions_get_def split: option.splits)
qed

lemma reactions_remove_faults:
  assumes "reactions_remove w chan ts name = (x, w')"
  shows "pending_faults w' \<subseteq> pending_faults w" and "x = Some e \<Longrightarrow> Some e \<in> pending_faults w"
proof -
  obtain y v where c: "slack_api_call w = (y, v)" by (cases "slack_api_call w")
  show "pending_faults w' \<subseteq> pending_faults w"
    using assms c slack_api_call_faults(1) [OF c]
    by (auto simp: reactions_remove_def split: option.splits)
  show "x = Some e \<Longrightarrow> Some e \<in> pending_faults w"
    using assms c slack_api_call_faults(2) [OF c, of e]
    by (auto simp: reactions_remove_def split: option.splits)
qed

lemma reactions_add_faults:
  assumes "reactions_add w chan ts name = (x, w')"
  shows "pending_faults w' \<subseteq> pending_faults w" and "x = Some e \<Longrightarrow> Some e \<in> pending_faults w"
proof -
  obtain y v where c: "slack_api_call w = (y, v)" by (cases "slack_api_call w")
  show "pending_faults w' \<subseteq> pending_faults w"
    using assms c slack_api_call_faults(1) [OF c]
    by (auto simp: reactions_add_def split: option.splits)
  show "x = Some e \<Longrightarrow> Some e \<in> pending_faults w"
    using assms c slack_api_call_faults(2) [OF c, of e]
    by (auto simp: reactions_add_def split: option.splits)
qed

lemma remove_bot_reactions_loop_faults:
  "remove_bot_reactions_loop chan ts rs w = (x, w') \<Longrightarrow>
   pending_faults w' \<subseteq> pending_faults w \<and> (x = Some e \<longrightarrow> Some e \<in> pending_faults w)"
proof (induction rs arbitrary: w)
  case Nil
  then show ?case by auto
next
  case (Cons r rs)
  show ?case
  proof (cases "bot_id (slack_sdk_wrapper w) \<in> set (r_users r)
                \<and> (\<exists>n. r_name r = Some n \<and> n \<noteq> [])")
    case False
    then have "remove_bot_reactions_loop chan ts (r # rs) w
                 = remove_bot_reactions_loop chan ts rs w"
      by (auto split: option.splits)
    then show ?thesis using Cons.IH [of w] Cons.prems by simp
  next
    case True
    then obtain n where n: "r_name r = Some n" "n \<noteq> []"
      and b: "bot_id (slack_sdk_wrapper w) \<in> set (r_users r)" by auto
    obtain y v where rm: "reactions_remove w chan ts n = (y, v)"
      by (cases "reactions_remove w chan ts n")
    note f = reactions_remove_faults [OF rm]
    show ?thesis
    proof (cases y)
      case None
      then have "remove_bot_reactions_loop chan ts rs v = (x, w')"
        using n b rm Cons.prems by simp
      then have "pending_faults w' \<subseteq> pending_faults v
          \<and> (x = Some e \<longrightarrow> Some e \<in> pending_faults v)"
        by (rule Cons.IH)
      then show ?thesis using f(1) by auto
    next
      case (Some e')
      then have "(x, w') = (Some e', v)"
        using n b rm Cons.prems by simp
      then show ?thesis using f(1) f(2) [of e'] Some by auto
    qed
  qed
qed

lemma remove_bot_reactions_faults:
  assumes "remove_bot_reactions w chan ts = (x, w')"
  shows "pending_faults w' \<subseteq> pending_faults w" and "x = Some e \<Longrightarrow> Some e \<in> pending_faults w"
proof -
  obtain y v where g: "reactions_get w chan ts = (y, v)"
    by (cases "reactions_get w chan ts")
  note f = reactions_get_faults [OF g]
  have "pending_faults w' \<subseteq> pending_faults w \<and> (x = Some e \<longrightarrow> Some e \<in> pending_faults w)"
  proof (cases y)
    case (Inl e')
    then show ?thesis using g f(1) f(2) [of e'] assms by (auto simp: remove_bot_reactions_def)
  next
    case (Inr rs)
    show ?thesis
    proof (cases "rs = []")
      case True
      then show ?thesis using Inr g f(1) assms by (auto simp: remove_bot_reactions_def)
    next
      case False
      then have "remove_bot_reactions_loop chan ts rs v = (x, w')"
        using Inr g assms by (simp add: remove_bot_reactions_def)
      then have "pending_faults w' \<subseteq> pending_faults v
          \<and> (x = Some e \<longrightarrow> Some e \<in> pending_faults v)"
        by (rule remove_bot_reactions_loop_faults)
      then show ?thesis using f(1) by auto
    qed
  qed
  then show "pending_faults w' \<subseteq> pending_faults w"
    and "x = Some e \<Longrightarrow> Some e \<in> pending_faults w" by auto
qed

text \<open>An exception that leaves the wrapper was scheduled and is not a client error.\<close>

lemma acknowledge_prepare_escapes:
  assumes func: "\<And>v y v'. func self v = (y, v') \<Longrightarrow>
                   y = Some e \<longrightarrow> Some e \<in> pending_faults v"
    and r: "fst (acknowledge_prepare name func self w) = Some e"
  shows "\<not> is_client_exception e \<and> Some e \<in> pending_faults w"
proof -
  obtain y v where t: "acknowledge_try func self w = (y, v)"
    by (cases "acknowledge_try func self w")
  from r t have y: "y = Some e" and nc: "\<not> is_client_exception e"
    by (auto simp: acknowledge_prepare_def split: option.splits if_splits)
  obtain z u where rb: "remove_bot_reactions w (channel_id self) (message_ts self) = (z, u)"
    by (cases "remove_bot_reactions w (channel_id self) (message_ts self)")
  note f = remove_bot_reactions_faults [OF rb]
  have "Some e \<in> pending_faults w"
  proof (cases z)
    case None
    then have "func self u = (Some e, v)"
      using t y rb by (simp add: acknowledge_try_def)
    then have "Some e \<in> pending_faults u" using func by blast
    then show ?thesis using f(1) by auto
  next
    case (Some e')
    then have "e' = e" using t y rb by (simp add: acknowledge_try_def)
    then show ?thesis using f(2) [of e] Some by simp
  qed
  then show ?thesis using nc by simp
qed


lemma get_set_reactions [simp]: "get_reactions (set_reactions w chan ts rs) chan ts = rs"
  by (simp add: get_reactions_def set_reactions_def)

lemma get_reactions_add_log [simp]: "get_reactions (add_log entry w) chan ts = get_reactions w chan ts"
  by (simp add: get_reactions_def add_log_def)

lemma slack_set_reactions [simp]:
  "faults (slack_sdk_wrapper (set_reactions w chan ts rs)) = faults (slack_sdk_wrapper w)"
  "bot_id (slack_sdk_wrapper (set_reactions w chan ts rs)) = bot_id (slack_sdk_wrapper w)"
  "log (set_reactions w chan ts rs) = log w"
  by (simp_all add: set_reactions_def)

lemma slack_add_log [simp]:
  "slack_sdk_wrapper (add_log entry w) = slack_sdk_wrapper w"
  "log (add_log entry w) = log w @ [entry]"
  by (simp_all add: add_log_def)

lemma quiet_api_call: "faults (slack_sdk_wrapper w) = [] \<Longrightarrow> slack_api_call w = (None, w)"
  by (simp add: slack_api_call_def)

lemma quiet_reactions_remove:
  "faults (slack_sdk_wrapper w) = [] \<Longrightarrow>
   reactions_remove w chan ts name =
     (None, set_reactions w chan ts
              (without_user (bot_id (slack_sdk_wrapper w)) name (get_reactions w chan ts)))"
  by (simp add: reactions_remove_def quiet_api_call)

lemma quiet_reactions_add:
  "faults (slack_sdk_wrapper w) = [] \<Longrightarrow>
   reactions_add w chan ts name =
     (None, set_reactions w chan ts
              (with_user (bot_id (slack_sdk_wrapper w)) name (get_reactions w chan ts)))"
  by (simp add: reactions_add_def quiet_api_call)

lemma quiet_reactions_get:
  "faults (slack_sdk_wrapper w) = [] \<Longrightarrow>
   reactions_get w chan ts = (Inr (get_reactions w chan ts), w)"
  by (simp add: reactions_get_def quiet_api_call)

lemma without_user_origin:
  assumes "r' \<in> set (without_user b n cur)"
  shows "\<exists>r \<in> set cur. r_name r = r_name r' \<and> set (r_users r') \<subseteq> set (r_users r)
           \<and> (r_name r' = Some n \<longrightarrow> b \<notin> set (r_users r'))"
  using assms by (auto simp: without_user_def split: if_splits)

lemma with_user_reacted:
  "list_ex (\<lambda>r. r_name r = Some n \<and> b \<in> set (r_users r)) (with_user b n rs)"
proof (cases "list_ex (\<lambda>r. r_name r = Some n) rs")
  case True
  then obtain r where r: "r \<in> set rs" "r_name r = Some n"
    by (auto simp: list_ex_iff)
  let ?f = "\<lambda>r. if r_name r = Some n \<and> b \<notin> set (r_users r)
                     then r\<lparr>r_users := r_users r @ [b]\<rparr> else r"
  have "?f r \<in> set (with_user b n rs)"
    using True r(1) by (simp add: with_user_def)
  moreover have "r_name (?f r) = Some n \<and> b \<in> set (r_users (?f r))"
    using r(2) by simp
  ultimately show ?thesis unfolding list_ex_iff by blast
next
  case False
  then show ?thesis by (simp add: with_user_def list_ex_iff)
qed

lemma quiet_loop:
  assumes "faults (slack_sdk_wrapper w) = []"
    and "bot_marks_within (bot_id (slack_sdk_wrapper w)) (get_reactions w chan ts) rs"
  shows "\<exists>w'. remove_bot_reactions_loop chan ts rs w = (None, w')
           \<and> faults (slack_sdk_wrapper w') = []
           \<and> bot_id (slack_sdk_wrapper w') = bot_id (slack_sdk_wrapper w)
           \<and> log w' = log w
           \<and> bot_marks_within (bot_id (slack_sdk_wrapper w)) (get_reactions w' chan ts) []"
  using assms
proof (induction rs arbitrary: w)
  case Nil
  then show ?case by simp
next
  case (Cons r rs)
  let ?b = "bot_id (slack_sdk_wrapper w)"
  show ?case
  proof (cases "?b \<in> set (r_users r) \<and> (\<exists>n. r_name r = Some n \<and> n \<noteq> [])")
    case False
    then have eq: "remove_bot_reactions_loop chan ts (r # rs) w
                 = remove_bot_reactions_loop chan ts rs w"
      by (auto split: option.splits)
    have "bot_marks_within ?b (get_reactions w chan ts) rs"
      using Cons.prems(2) False unfolding bot_marks_within_def
      by (metis set_ConsD)
    then show ?thesis using Cons.IH [OF Cons.prems(1)] eq by simp
  next
    case True
    then obtain n where n: "r_name r = Some n" "n \<noteq> []" and b: "?b \<in> set (r_users r)"
      by auto
    let ?w = "set_reactions w chan ts (without_user ?b n (get_reactions w chan ts))"
    have eq: "remove_bot_reactions_loop chan ts (r # rs) w
                 = remove_bot_reactions_loop chan ts rs ?w"
      using n b quiet_reactions_remove [OF Cons.prems(1)] by simp
    have q: "faults (slack_sdk_wrapper ?w) = []" using Cons.prems(1) by simp
    have inv: "bot_marks_within (bot_id (slack_sdk_wrapper ?w)) (get_reactions ?w chan ts) rs"
      unfolding bot_marks_within_def
    proof (intro ballI impI)
      fix r'
      assume m: "r' \<in> set (get_reactions ?w chan ts)"
        and h: "bot_id (slack_sdk_wrapper ?w) \<in> set (r_users r')
                 \<and> (\<exists>n. r_name r' = Some n \<and> n \<noteq> [])"
      from m have "r' \<in> set (without_user ?b n (get_reactions w chan ts))" by simp
      then obtain r0 where r0: "r0 \<in> set (get_reactions w chan ts)" "r_name r0 = r_name r'"
          "set (r_users r') \<subseteq> set (r_users r0)" "r_name r' = Some n \<longrightarrow> ?b \<notin> set (r_users r')"
        using without_user_origin by blast
      have hb: "?b \<in> set (r_users r')" using h by simp
      then have ne: "r_name r' \<noteq> Some n" using r0(4) by blast
      have "?b \<in> set (r_users r0) \<and> (\<exists>n. r_name r0 = Some n \<and> n \<noteq> [])"
        using hb r0(2) r0(3) h by auto
      then obtain r1 where r1: "r1 \<in> set (r # rs)" "r_name r1 = r_name r0" "?b \<in> set (r_users r1)"
        using Cons.prems(2) r0(1) unfolding bot_marks_within_def by blast
      then have "r1 \<noteq> r" using ne n(1) r0(2) by auto
      then have "r1 \<in> set rs" using r1(1) by simp
      then show "\<exists>r \<in> set rs. r_name r = r_name r'
                   \<and> bot_id (slack_sdk_wrapper ?w) \<in> set (r_users r)"
        using r1 r0(2) by auto
    qed
    from Cons.IH [OF q inv] show ?thesis using eq by simp
  qed
qed

lemma quiet_remove_bot_reactions:
  assumes "faults (slack_sdk_wrapper w) = []"
  shows "\<exists>w'. remove_bot_reactions w chan ts = (None, w')
           \<and> faults (slack_sdk_wrapper w') = []
           \<and> bot_id (slack_sdk_wrapper w') = bot_id (slack_sdk_wrapper w)
           \<and> log w' = log w
           \<and> (\<forall>n. n \<noteq> [] \<longrightarrow> \<not> bot_reacted w' chan ts n)"
proof -
  have start: "bot_marks_within (bot_id (slack_sdk_wrapper w)) (get_reactions w chan ts)
                 (get_reactions w chan ts)"
    unfolding bot_marks_within_def by blast
  from quiet_loop [OF assms start] obtain w' where
    l: "remove_bot_reactions_loop chan ts (get_reactions w chan ts) w = (None, w')"
      "faults (slack_sdk_wrapper w') = []"
      "bot_id (slack_sdk_wrapper w') = bot_id (slack_sdk_wrapper w)"
      "log w' = log w"
      "bot_marks_within (bot_id (slack_sdk_wrapper w)) (get_reactions w' chan ts) []"
    by blast
  have clear: "\<forall>n. n \<noteq> [] \<longrightarrow> \<not> bot_reacted w' chan ts n"
    using l(5) l(3) unfolding bot_marks_within_def bot_reacted_def list_ex_iff by auto
  show ?thesis
  proof (cases "get_reactions w chan ts = []")
    case True
    then have "remove_bot_reactions w chan ts = (None, w)"
      using assms by (simp add: remove_bot_reactions_def quiet_reactions_get)
    moreover have "\<forall>n. n \<noteq> [] \<longrightarrow> \<not> bot_reacted w chan ts n"
      using True by (simp add: bot_reacted_def)
    ultimately show ?thesis using assms by simp
  next
    case False
    then have "remove_bot_reactions w chan ts = (None, w')"
      using assms l(1) by (simp add: remove_bot_reactions_def quiet_reactions_get)
    then show ?thesis using l clear by simp
  qed
qed


lemma reactions_add_reacted:
  assumes "reactions_add w chan ts n = (None, v)"
  shows "bot_reacted v chan ts n"
proof -
  obtain y u where c: "slack_api_call w = (y, u)" by (cases "slack_api_call w")
  then have "y = None" and v: "v = set_reactions u chan ts
        (with_user (bot_id (slack_sdk_wrapper u)) n (get_reactions u chan ts))"
    using assms by (auto simp: reactions_add_def split: option.splits)
  show ?thesis
    unfolding v bot_reacted_def using with_user_reacted by simp
qed

lemma acknowledge_prepare_None:
  assumes "fst (acknowledge_prepare name func self w) = None"
  shows "(\<exists>v. acknowledge_try func self w = (None, v)
            \<and> snd (acknowledge_prepare name func self w) = v)
         \<or> (\<exists>e v. acknowledge_try func self w = (Some e, v) \<and> is_client_exception e
            \<and> snd (acknowledge_prepare name func self w)
                = add_log (Log_ack_failed name (channel_id self) (message_ts self)) v)"
  using assms
  by (cases "acknowledge_try func self w")
     (auto simp: acknowledge_prepare_def split: option.splits if_splits)

lemma acknowledge_try_None:
  assumes "acknowledge_try func self w = (None, v)"
  shows "\<exists>u. remove_bot_reactions w (channel_id self) (message_ts self) = (None, u)
           \<and> func self u = (None, v)"
  using assms
  by (cases "remove_bot_reactions w (channel_id self) (message_ts self)")
     (auto simp: acknowledge_try_def split: option.splits)

lemma add_reaction_escapes:
  "add_reaction (add_log entry v) chan ts n = (y, v') \<Longrightarrow>
   y = Some e \<longrightarrow> Some e \<in> pending_faults v"
  using reactions_add_faults(2) [of "add_log entry v" chan ts n y v' e]
  by (simp add: add_reaction_def)

lemma acknowledged_or_logged:
  assumes "fst (acknowledge_prepare name
             (\<lambda>self w. add_reaction (add_log (entry self) w) (channel_id self) (message_ts self) n)
             self w) = None"
  shows "bot_reacted (snd (acknowledge_prepare name
             (\<lambda>self w. add_reaction (add_log (entry self) w) (channel_id self) (message_ts self) n)
             self w)) (channel_id self) (message_ts self) n
         \<or> last (log (snd (acknowledge_prepare name
             (\<lambda>self w. add_reaction (add_log (entry self) w) (channel_id self) (message_ts self) n)
             self w)))
             = Log_ack_failed name (channel_id self) (message_ts self)"
proof -
  let ?f = "\<lambda>self w. add_reaction (add_log (entry self) w) (channel_id self) (message_ts self) n"
  from acknowledge_prepare_None [OF assms]
  consider (ok) v where "acknowledge_try ?f self w = (None, v)"
      "snd (acknowledge_prepare name ?f self w) = v"
    | (failed) e v where "acknowledge_try ?f self w = (Some e, v)" "is_client_exception e"
      "snd (acknowledge_prepare name ?f self w)
         = add_log (Log_ack_failed name (channel_id self) (message_ts self)) v"
    by blast
  then show ?thesis
  proof cases
    case ok
    from acknowledge_try_None [OF ok(1)] obtain u where
      "add_reaction (add_log (entry self) u) (channel_id self) (message_ts self) n = (None, v)"
      by blast
    then have "bot_reacted v (channel_id self) (message_ts self) n"
      unfolding add_reaction_def by (rule reactions_add_reacted)
    then show ?thesis using ok(2) by simp
  next
    case failed
    then show ?thesis by simp
  qed
qed

lemma add_reaction_func_escapes:
  assumes "fst (acknowledge_prepare name
             (\<lambda>self w. add_reaction (add_log (entry self) w) (channel_id self) (message_ts self) n)
             self w) = Some e"
  shows "\<not> is_client_exception e \<and> Some e \<in> set (faults (slack_sdk_wrapper w))"
proof -
  let ?f = "\<lambda>self w. add_reaction (add_log (entry self) w) (channel_id self) (message_ts self) n"
  have func: "\<And>v y v'. ?f self v = (y, v') \<Longrightarrow> y = Some e \<longrightarrow> Some e \<in> pending_faults v"
    by (rule add_reaction_escapes)
  have "\<not> is_client_exception e \<and> Some e \<in> pending_faults w"
    using func assms by (rule acknowledge_prepare_escapes)
  then show ?thesis by (simp add: pending_faults_def)
qed

lemma log_func_escapes:
  assumes "fst (acknowledge_prepare name (\<lambda>self w. (None, add_log (entry self) w)) self w)
             = Some e"
  shows "\<not> is_client_exception e \<and> Some e \<in> set (faults (slack_sdk_wrapper w))"
proof -
  let ?f = "\<lambda>self w. (None :: exn option, add_log (entry self) w)"
  have func: "\<And>v y v'. ?f self v = (y, v') \<Longrightarrow> y = Some e \<longrightarrow> Some e \<in> pending_faults v"
    by simp
  have "\<not> is_client_exception e \<and> Some e \<in> pending_faults w"
    using func assms by (rule acknowledge_prepare_escapes)
  then show ?thesis by (simp add: pending_faults_def)
qed

lemma not_handled_logged:
  assumes "fst (acknowledge_prepare name (\<lambda>self w. (None, add_log (entry self) w)) self w)
             = None"
  shows "last (log (snd (acknowledge_prepare name
                  (\<lambda>self w. (None, add_log (entry self) w)) self w))) = entry self
         \<or> last (log (snd (acknowledge_prepare name
                  (\<lambda>self w. (None, add_log (entry self) w)) self w)))
             = Log_ack_failed name (channel_id self) (message_ts self)"
proof -
  let ?f = "\<lambda>self w. (None :: exn option, add_log (entry self) w)"
  from acknowledge_prepare_None [OF assms]
  consider (ok) v where "acknowledge_try ?f self w = (None, v)"
      "snd (acknowledge_prepare name ?f self w) = v"
    | (failed) e v where "acknowledge_try ?f self w = (Some e, v)" "is_client_exception e"
      "snd (acknowledge_prepare name ?f self w)
         = add_log (Log_ack_failed name (channel_id self) (message_ts self)) v"
    by blast
  then show ?thesis
  proof cases
    case ok
    from acknowledge_try_None [OF ok(1)] obtain u where "?f self u = (None, v)"
      by blast
    then have "v = add_log (entry self) u" by simp
    then show ?thesis using ok(2) by simp
  next
    case failed
    then show ?thesis by simp
  qed
qed

lemma quiet_add_reaction_func:
  assumes "faults (slack_sdk_wrapper w) = []"
  shows "\<exists>w'. acknowledge_prepare name
             (\<lambda>self w. add_reaction (add_log (entry self) w) (channel_id self) (message_ts self) n)
             self w = (None, w')
           \<and> bot_reacted w' (channel_id self) (message_ts self) n
           \<and> log w' = log w @ [entry self]"
proof -
  let ?f = "\<lambda>self w. add_reaction (add_log (entry self) w) (channel_id self) (message_ts self) n"
  from quiet_remove_bot_reactions [OF assms, of "channel_id self" "message_ts self"]
  obtain u where u: "remove_bot_reactions w (channel_id self) (message_ts self) = (None, u)"
    "faults (slack_sdk_wrapper u) = []" "log u = log w"
    by blast
  let ?u = "add_log (entry self) u"
  have q: "faults (slack_sdk_wrapper ?u) = []" using u(2) by simp
  let ?v = "set_reactions ?u (channel_id self) (message_ts self)
              (with_user (bot_id (slack_sdk_wrapper ?u)) n
                 (get_reactions ?u (channel_id self) (message_ts self)))"
  have add: "reactions_add ?u (channel_id self) (message_ts self) n = (None, ?v)"
    using q by (rule quiet_reactions_add)
  then have br: "bot_reacted ?v (channel_id self) (message_ts self) n"
    by (rule reactions_add_reacted)
  have t: "acknowledge_try ?f self w = (None, ?v)"
    using u(1) add by (simp add: acknowledge_try_def add_reaction_def)
  have "acknowledge_prepare name ?f self w = (None, ?v)"
    using t by (simp add: acknowledge_prepare_def)
  moreover have "log ?v = log w @ [entry self]" using u(3) by simp
  ultimately show ?thesis using br by blast
qed

lemma quiet_log_func:
  assumes "faults (slack_sdk_wrapper w) = []"
  shows "\<exists>w'. acknowledge_prepare name (\<lambda>self w. (None, add_log (entry self) w)) self w
             = (None, w')
           \<and> (\<forall>n. n \<noteq> [] \<longrightarrow> \<not> bot_reacted w' (channel_id self) (message_ts self) n)
           \<and> log w' = log w @ [entry self]"
proof -
  let ?f = "\<lambda>self w. (None :: exn option, add_log (entry self) w)"
  from quiet_remove_bot_reactions [OF assms, of "channel_id self" "message_ts self"]
  obtain u where u: "remove_bot_reactions w (channel_id self) (message_ts self) = (None, u)"
    "log u = log w"
    "\<forall>n. n \<noteq> [] \<longrightarrow> \<not> bot_reacted u (channel_id self) (message_ts self) n"
    by blast
  let ?v = "add_log (entry self) u"
  have t: "acknowledge_try ?f self w = (None, ?v)"
    using u(1) by (simp add: acknowledge_try_def)
  have "acknowledge_prepare name ?f self w = (None, ?v)"
    using t by (simp add: acknowledge_prepare_def)
  moreover have "\<forall>n. n \<noteq> [] \<longrightarrow> \<not> bot_reacted ?v (channel_id self) (message_ts self) n"
    using u(3) by (simp add: bot_reacted_def)
  moreover have "log ?v = log w @ [entry self]" using u(2) by simp
  ultimately show ?thesis by blast
qed

lemma first_call_fails:
  assumes "faults (slack_sdk_wrapper w) = Some e # fs"
  shows "acknowledge_try func self w
           = (Some e, w\<lparr>slack_sdk_wrapper := (slack_sdk_wrapper w)\<lparr>faults := fs\<rparr>\<rparr>)"
  using assms
  by (simp add: acknowledge_try_def remove_bot_reactions_def reactions_get_def
      slack_api_call_def)

lemma acknowledge_prepare_first_call_fails:
  assumes "faults (slack_sdk_wrapper w) = Some e # fs"
  shows "\<not> is_client_exception e \<longrightarrow> fst (acknowledge_prepare name func self w) = Some e"
    and "is_client_exception e \<longrightarrow>
           fst (acknowledge_prepare name func self w) = None
           \<and> log (snd (acknowledge_prepare name func self w))
               = log w @ [Log_ack_failed name (channel_id self) (message_ts self)]"
  using first_call_fails [OF assms, of func self]
  by (simp_all add: acknowledge_prepare_def add_log_def)

lemma first_fault_add:
  "first_fault fs (a + b) =
     (case first_fault fs a of Some e \<Rightarrow> Some e | None \<Rightarrow> first_fault (drop a fs) b)"
proof (induction fs a rule: first_fault.induct)
  case (1 fs)
  then show ?case by simp
next
  case (2 n)
  then show ?case by (cases b) simp_all
next
  case (3 fs n)
  then show ?case by (simp split: option.splits)
next
  case (4 e fs n)
  then show ?case by simp
qed

lemma first_fault_Nil [simp]: "first_fault [] n = None"
  by (cases n) simp_all

lemma slack_api_call_first_fault:
  "fst (slack_api_call w) = first_fault (faults (slack_sdk_wrapper w)) 1"
  "snd (slack_api_call w)
     = w\<lparr>slack_sdk_wrapper := (slack_sdk_wrapper w)\<lparr>faults := drop 1 (faults (slack_sdk_wrapper w))\<rparr>\<rparr>"
proof -
  show "fst (slack_api_call w) = first_fault (faults (slack_sdk_wrapper w)) 1"
  proof (cases "faults (slack_sdk_wrapper w)")
    case Nil
    then show ?thesis by (simp add: slack_api_call_def)
  next
    case (Cons f fs)
    then show ?thesis by (cases f) (simp_all add: slack_api_call_def)
  qed
  show "snd (slack_api_call w)
     = w\<lparr>slack_sdk_wrapper := (slack_sdk_wrapper w)\<lparr>faults := drop 1 (faults (slack_sdk_wrapper w))\<rparr>\<rparr>"
    by (cases "faults (slack_sdk_wrapper w)") (auto simp: slack_api_call_def)
qed

text \<open>What one call leaves unchanged.\<close>

lemma reactions_remove_first_fault:
  assumes "reactions_remove w chan ts name = (x, w')"
  shows "x = first_fault (faults (slack_sdk_wrapper w)) 1"
    and "faults (slack_sdk_wrapper w') = drop 1 (faults (slack_sdk_wrapper w))"
    and "bot_id (slack_sdk_wrapper w') = bot_id (slack_sdk_wrapper w)"
    and "log w' = log w"
  using assms slack_api_call_first_fault [of w]
  by (cases "slack_api_call w"; cases "fst (slack_api_call w)";
      auto simp: reactions_remove_def set_reactions_def)+


lemma is_bot_mark_iff:
  "is_bot_mark b r \<longleftrightarrow> b \<in> set (r_users r) \<and> (\<exists>n. r_name r = Some n \<and> n \<noteq> [])"
  by (auto simp: is_bot_mark_def split: option.splits)

lemma loop_first_fault:
  "fst (remove_bot_reactions_loop chan ts rs w)
     = first_fault (faults (slack_sdk_wrapper w))
         (length (filter (is_bot_mark (bot_id (slack_sdk_wrapper w))) rs))
   \<and> (fst (remove_bot_reactions_loop chan ts rs w) = None \<longrightarrow>
        faults (slack_sdk_wrapper (snd (remove_bot_reactions_loop chan ts rs w)))
          = drop (length (filter (is_bot_mark (bot_id (slack_sdk_wrapper w))) rs))
              (faults (slack_sdk_wrapper w))
        \<and> bot_id (slack_sdk_wrapper (snd (remove_bot_reactions_loop chan ts rs w)))
          = bot_id (slack_sdk_wrapper w)
        \<and> log (snd (remove_bot_reactions_loop chan ts rs w)) = log w)"
proof (induction rs arbitrary: w)
  case Nil
  then show ?case by simp
next
  case (Cons r rs)
  let ?b = "bot_id (slack_sdk_wrapper w)"
  let ?fs = "faults (slack_sdk_wrapper w)"
  show ?case
  proof (cases "is_bot_mark ?b r")
    case False
    then have "remove_bot_reactions_loop chan ts (r # rs) w
                 = remove_bot_reactions_loop chan ts rs w"
      by (auto simp: is_bot_mark_iff split: option.splits)
    then show ?thesis using Cons.IH [of w] False by simp
  next
    case True
    then obtain n where n: "r_name r = Some n" "n \<noteq> []" and b: "?b \<in> set (r_users r)"
      by (auto simp: is_bot_mark_iff)
    obtain y v where rm: "reactions_remove w chan ts n = (y, v)"
      by (cases "reactions_remove w chan ts n")
    note f = reactions_remove_first_fault [OF rm]
    let ?k = "length (filter (is_bot_mark ?b) rs)"
    have k: "length (filter (is_bot_mark ?b) (r # rs)) = 1 + ?k" using True by simp
    show ?thesis
    proof (cases y)
      case None
      then have eq: "remove_bot_reactions_loop chan ts (r # rs) w
                   = remove_bot_reactions_loop chan ts rs v"
        using n b rm by simp
      have "first_fault ?fs 1 = None" using f(1) None by simp
      then have ff: "first_fault ?fs (1 + ?k) = first_fault (drop 1 ?fs) ?k"
        by (simp only: first_fault_add) simp
      show ?thesis
        unfolding eq k ff using Cons.IH [of v] f(2,3,4) by simp
    next
      case (Some e)
      then have eq: "remove_bot_reactions_loop chan ts (r # rs) w = (Some e, v)"
        using n b rm by simp
      have "first_fault ?fs 1 = Some e" using f(1) Some by simp
      then have ff: "first_fault ?fs (1 + ?k) = Some e"
        by (simp only: first_fault_add) simp
      show ?thesis unfolding eq k ff by simp
    qed
  qed
qed

lemma remove_bot_reactions_first_fault:
  "fst (remove_bot_reactions w chan ts)
     = first_fault (faults (slack_sdk_wrapper w)) (clearing_calls w chan ts)
   \<and> (fst (remove_bot_reactions w chan ts) = None \<longrightarrow>
        faults (slack_sdk_wrapper (snd (remove_bot_reactions w chan ts)))
          = drop (clearing_calls w chan ts) (faults (slack_sdk_wrapper w))
        \<and> log (snd (remove_bot_reactions w chan ts)) = log w)"
proof -
  let ?fs = "faults (slack_sdk_wrapper w)"
  let ?v = "snd (slack_api_call w)"
  let ?rs = "get_reactions w chan ts"
  let ?k = "length (filter (is_bot_mark (bot_id (slack_sdk_wrapper w))) ?rs)"
  note c = slack_api_call_first_fault [of w]
  have v: "faults (slack_sdk_wrapper ?v) = drop 1 ?fs"
    "bot_id (slack_sdk_wrapper ?v) = bot_id (slack_sdk_wrapper w)"
    "log ?v = log w" "get_reactions ?v chan ts = ?rs"
    by (simp_all add: c(2) get_reactions_def)
  have sp: "first_fault ?fs (1 + ?k)
      = (case first_fault ?fs 1 of Some e \<Rightarrow> Some e | None \<Rightarrow> first_fault (drop 1 ?fs) ?k)"
    by (rule first_fault_add)
  show ?thesis
  proof (cases "fst (slack_api_call w)")
    case (Some e)
    then have "remove_bot_reactions w chan ts = (Some e, ?v)"
      by (cases "slack_api_call w") (simp add: remove_bot_reactions_def reactions_get_def)
    then show ?thesis using Some c(1) sp by (simp add: clearing_calls_def)
  next
    case None
    then have g: "reactions_get w chan ts = (Inr ?rs, ?v)"
      using v(4) by (cases "slack_api_call w") (simp add: reactions_get_def)
    have ff: "first_fault ?fs (1 + ?k) = first_fault (drop 1 ?fs) ?k"
      using sp None c(1) by simp
    show ?thesis
    proof (cases "?rs = []")
      case True
      then have "remove_bot_reactions w chan ts = (None, ?v)"
        using g by (simp add: remove_bot_reactions_def)
      then show ?thesis using True v ff by (simp add: clearing_calls_def)
    next
      case False
      then have "remove_bot_reactions w chan ts = remove_bot_reactions_loop chan ts ?rs ?v"
        using g by (simp add: remove_bot_reactions_def)
      then show ?thesis
        using loop_first_fault [of chan ts ?rs ?v] v ff by (simp add: clearing_calls_def)
    qed
  qed
qed


lemma acknowledge_prepare_outcome:
  "fst (acknowledge_prepare name func self w)
     = (case fst (acknowledge_try func self w) of
          None \<Rightarrow> None
        | Some e \<Rightarrow> if is_client_exception e then None else Some e)"
  "fst (acknowledge_try func self w) = None \<Longrightarrow>
     snd (acknowledge_prepare name func self w) = snd (acknowledge_try func self w)"
  "fst (acknowledge_try func self w) = Some e \<Longrightarrow> is_client_exception e \<Longrightarrow>
     last (log (snd (acknowledge_prepare name func self w)))
       = Log_ack_failed name (channel_id self) (message_ts self)"
  by (cases "acknowledge_try func self w"; cases "fst (acknowledge_try func self w)";
      simp add: acknowledge_prepare_def)+

lemma reactions_add_fst:
  "fst (reactions_add w chan ts n) = first_fault (faults (slack_sdk_wrapper w)) 1"
  using slack_api_call_first_fault(1) [of w]
  by (cases "slack_api_call w"; cases "fst (slack_api_call w)"; simp add: reactions_add_def)

lemma try_add_first_fault:
  "fst (acknowledge_try
          (\<lambda>self w. add_reaction (add_log (entry self) w) (channel_id self) (message_ts self) n)
          self w)
     = first_fault (faults (slack_sdk_wrapper w))
         (clearing_calls w (channel_id self) (message_ts self) + 1)"
proof -
  let ?f = "\<lambda>self w. add_reaction (add_log (entry self) w) (channel_id self) (message_ts self) n"
  let ?fs = "faults (slack_sdk_wrapper w)"
  let ?k = "clearing_calls w (channel_id self) (message_ts self)"
  let ?R = "remove_bot_reactions w (channel_id self) (message_ts self)"
  note r = remove_bot_reactions_first_fault [of w "channel_id self" "message_ts self"]
  have sp: "first_fault ?fs (?k + 1)
      = (case first_fault ?fs ?k of Some e \<Rightarrow> Some e | None \<Rightarrow> first_fault (drop ?k ?fs) 1)"
    by (rule first_fault_add)
  show ?thesis
  proof (cases "fst ?R")
    case (Some e)
    then have "acknowledge_try ?f self w = (Some e, snd ?R)"
      by (cases ?R) (simp add: acknowledge_try_def)
    then show ?thesis using Some r sp by simp
  next
    case None
    then have "acknowledge_try ?f self w = ?f self (snd ?R)"
      by (cases ?R) (simp add: acknowledge_try_def)
    then have "fst (acknowledge_try ?f self w)
                 = first_fault (faults (slack_sdk_wrapper (snd ?R))) 1"
      by (simp add: add_reaction_def reactions_add_fst)
    then show ?thesis using None r sp by simp
  qed
qed

lemma try_log_first_fault:
  "fst (acknowledge_try (\<lambda>self w. (None, add_log (entry self) w)) self w)
     = first_fault (faults (slack_sdk_wrapper w))
         (clearing_calls w (channel_id self) (message_ts self))"
proof -
  let ?f = "\<lambda>self w. (None :: exn option, add_log (entry self) w)"
  let ?R = "remove_bot_reactions w (channel_id self) (message_ts self)"
  note r = remove_bot_reactions_first_fault [of w "channel_id self" "message_ts self"]
  show ?thesis
  proof (cases "fst ?R")
    case (Some e)
    then have "acknowledge_try ?f self w = (Some e, snd ?R)"
      by (cases ?R) (simp add: acknowledge_try_def)
    then show ?thesis using Some r by simp
  next
    case None
    then have "acknowledge_try ?f self w = ?f self (snd ?R)"
      by (cases ?R) (simp add: acknowledge_try_def)
    then show ?thesis using None r by simp
  qed
qed

text \<open>
  The outcome of an acknowledgement that adds a mark, from the first exception among the
  outcomes scheduled for the calls it makes.
\<close>

lemma add_reaction_func_outcome:
  fixes self :: "'a event_scheme"
  defines "f \<equiv> (\<lambda>entry n (self :: 'a event_scheme) w.
      add_reaction (add_log (entry self) w) (channel_id self) (message_ts self) n)"
  shows "fst (acknowledge_prepare name (f entry n) self w)
           = (case first_fault (faults (slack_sdk_wrapper w))
                     (clearing_calls w (channel_id self) (message_ts self) + 1) of
                None \<Rightarrow> None
              | Some e \<Rightarrow> if is_client_exception e then None else Some e)"
    and "first_fault (faults (slack_sdk_wrapper w))
             (clearing_calls w (channel_id self) (message_ts self) + 1) = None \<longrightarrow>
           bot_reacted (snd (acknowledge_prepare name (f entry n) self w))
             (channel_id self) (message_ts self) n"
    and "first_fault (faults (slack_sdk_wrapper w))
             (clearing_calls w (channel_id self) (message_ts self) + 1) = Some x
           \<and> is_client_exception x \<longrightarrow>
           last (log (snd (acknowledge_prepare name (f entry n) self w)))
             = Log_ack_failed name (channel_id self) (message_ts self)"
proof -
  have t: "fst (acknowledge_try (f entry n) self w)
      = first_fault (faults (slack_sdk_wrapper w))
          (clearing_calls w (channel_id self) (message_ts self) + 1)"
    unfolding f_def by (rule try_add_first_fault)
  show "fst (acknowledge_prepare name (f entry n) self w)
           = (case first_fault (faults (slack_sdk_wrapper w))
                     (clearing_calls w (channel_id self) (message_ts self) + 1) of
                None \<Rightarrow> None
              | Some e \<Rightarrow> if is_client_exception e then None else Some e)"
    using acknowledge_prepare_outcome(1) [of name "f entry n" self w] t by simp
  show "first_fault (faults (slack_sdk_wrapper w))
             (clearing_calls w (channel_id self) (message_ts self) + 1) = None \<longrightarrow>
           bot_reacted (snd (acknowledge_prepare name (f entry n) self w))
             (channel_id self) (message_ts self) n"
  proof
    assume "first_fault (faults (slack_sdk_wrapper w))
             (clearing_calls w (channel_id self) (message_ts self) + 1) = None"
    then have n: "fst (acknowledge_try (f entry n) self w) = None" using t by simp
    then obtain v where v: "acknowledge_try (f entry n) self w = (None, v)"
      by (cases "acknowledge_try (f entry n) self w") simp
    from acknowledge_try_None [OF v] obtain u where
      "f entry n self u = (None, v)" by blast
    then have "reactions_add (add_log (entry self) u) (channel_id self) (message_ts self) n
                 = (None, v)"
      by (simp add: f_def add_reaction_def)
    then have "bot_reacted v (channel_id self) (message_ts self) n"
      by (rule reactions_add_reacted)
    then show "bot_reacted (snd (acknowledge_prepare name (f entry n) self w))
             (channel_id self) (message_ts self) n"
      using acknowledge_prepare_outcome(2) [OF n, of name] v by simp
  qed
  show "first_fault (faults (slack_sdk_wrapper w))
             (clearing_calls w (channel_id self) (message_ts self) + 1) = Some x
           \<and> is_client_exception x \<longrightarrow>
           last (log (snd (acknowledge_prepare name (f entry n) self w)))
             = Log_ack_failed name (channel_id self) (message_ts self)"
    using acknowledge_prepare_outcome(3) [of "f entry n" self w x name] t by simp
qed

lemma log_func_outcome:
  fixes self :: "'a event_scheme"
  defines "f \<equiv> (\<lambda>entry (self :: 'a event_scheme) w. (None :: exn option, add_log (entry self) w))"
  shows "fst (acknowledge_prepare name (f entry) self w)
           = (case first_fault (faults (slack_sdk_wrapper w))
                     (clearing_calls w (channel_id self) (message_ts self)) of
                None \<Rightarrow> None
              | Some e \<Rightarrow> if is_client_exception e then None else Some e)"
    and "first_fault (faults (slack_sdk_wrapper w))
             (clearing_calls w (channel_id self) (message_ts self)) = None \<longrightarrow>
           last (log (snd (acknowledge_prepare name (f entry) self w))) = entry self"
    and "first_fault (faults (slack_sdk_wrapper w))
             (clearing_calls w (channel_id self) (message_ts self)) = Some x
           \<and> is_client_exception x \<longrightarrow>
           last (log (snd (acknowledge_prepare name (f entry) self w)))
             = Log_ack_failed name (channel_id self) (message_ts self)"
proof -
  have t: "fst (acknowledge_try (f entry) self w)
      = first_fault (faults (slack_sdk_wrapper w))
          (clearing_calls w (channel_id self) (message_ts self))"
    unfolding f_def by (rule try_log_first_fault)
  show "fst (acknowledge_prepare name (f entry) self w)
           = (case first_fault (faults (slack_sdk_wrapper w))
                     (clearing_calls w (channel_id self) (message_ts self)) of
                None \<Rightarrow> None
              | Some e \<Rightarrow> if is_client_exception e then None else Some e)"
    using acknowledge_prepare_outcome(1) [of name "f entry" self w] t by simp
  show "first_fault (faults (slack_sdk_wrapper w))
             (clearing_calls w (channel_id self) (message_ts self)) = None \<longrightarrow>
           last (log (snd (acknowledge_prepare name (f entry) self w))) = entry self"
  proof
    assume "first_fault (faults (slack_sdk_wrapper w))
             (clearing_calls w (channel_id self) (message_ts self)) = None"
    then have n: "fst (acknowledge_try (f entry) self w) = None" using t by simp
    then obtain v where v: "acknowledge_try (f entry) self w = (None, v)"
      by (cases "acknowledge_try (f entry) self w") simp
    from acknowledge_try_None [OF v] obtain u where
      "f entry self u = (None, v)" by blast
    then have "v = add_log (entry self) u" by (simp add: f_def)
    then show "last (log (snd (acknowledge_prepare name (f entry) self w))) = entry self"
      using acknowledge_prepare_outcome(2) [OF n, of name] v by simp
  qed
  show "first_fault (faults (slack_sdk_wrapper w))
             (clearing_calls w (channel_id self) (message_ts self)) = Some x
           \<and> is_client_exception x \<longrightarrow>
           last (log (snd (acknowledge_prepare name (f entry) self w)))
             = Log_ack_failed name (channel_id self) (message_ts self)"
    using acknowledge_prepare_outcome(3) [of "f entry" self w x name] t by simp
qed

lemmas ack_defs = handle_event_def acknowledge_event_success_def acknowledge_event_error_def
  acknowledge_event_not_handled_def acknowledge_prepare_def acknowledge_try_def
  remove_bot_reactions_def reactions_get_def reactions_remove_def reactions_add_def
  add_reaction_def slack_api_call_def get_reactions_def set_reactions_def without_user_def
  with_user_def add_log_def bot_reacted_def raise_not_handled_def example_marked_world_def

text \<open>
  Claim C6, as the code has it. The wrapper of the three acknowledgements catches the
  error class of the Slack client only. An acknowledgement makes one call to read the
  reactions, one call to remove each mark of the bot, and (for success and error) one
  call to add the new mark; its outcome is decided by the first exception among the
  outcomes scheduled for these calls, whichever call it belongs to: with no such
  exception nothing is raised and the work is done (the mark is on the message, or the
  event is logged as not handled); a client error is swallowed, nothing is raised and
  the failure is the last entry of the log; an exception of any other class is raised to
  the caller. Hence an exception that leaves an acknowledgement is never a client error
  and is one of the scheduled outcomes, and an acknowledgement that raises nothing has
  either done its work or has logged the failure as its last entry.
\<close>

theorem acknowledge_swallows_client_exceptions:
  fixes self :: "'a event_scheme"
  shows "(fst (acknowledge_event_success cfg self w) = Some e
            \<longrightarrow> \<not> is_client_exception e \<and> Some e \<in> set (faults (slack_sdk_wrapper w)))
   \<and> (fst (acknowledge_event_error cfg self w) = Some e
            \<longrightarrow> \<not> is_client_exception e \<and> Some e \<in> set (faults (slack_sdk_wrapper w)))
   \<and> (fst (acknowledge_event_not_handled self w) = Some e
            \<longrightarrow> \<not> is_client_exception e \<and> Some e \<in> set (faults (slack_sdk_wrapper w)))
   \<and> (fst (acknowledge_event_success cfg self w) = None
            \<longrightarrow> bot_reacted (snd (acknowledge_event_success cfg self w))
                  (channel_id self) (message_ts self) (success_reaction cfg)
                \<or> last (log (snd (acknowledge_event_success cfg self w)))
                    = Log_ack_failed ''acknowledge_event_success'' (channel_id self)
                        (message_ts self))
   \<and> (fst (acknowledge_event_error cfg self w) = None
            \<longrightarrow> bot_reacted (snd (acknowledge_event_error cfg self w))
                  (channel_id self) (message_ts self) (error_reaction cfg)
                \<or> last (log (snd (acknowledge_event_error cfg self w)))
                    = Log_ack_failed ''acknowledge_event_error'' (channel_id self)
                        (message_ts self))
   \<and> (fst (acknowledge_event_not_handled self w) = None
            \<longrightarrow> last (log (snd (acknowledge_event_not_handled self w)))
                   = Log_ack_not_handled (channel_id self) (message_ts self)
                \<or> last (log (snd (acknowledge_event_not_handled self w)))
                    = Log_ack_failed ''acknowledge_event_not_handled'' (channel_id self)
                        (message_ts self))
   \<and> (faults (slack_sdk_wrapper w) = Some x # fs \<and> is_client_exception x
            \<longrightarrow> fst (acknowledge_event_success cfg self w) = None
              \<and> log (snd (acknowledge_event_success cfg self w))
                  = log w @ [Log_ack_failed ''acknowledge_event_success'' (channel_id self)
                               (message_ts self)]
              \<and> fst (acknowledge_event_error cfg self w) = None
              \<and> log (snd (acknowledge_event_error cfg self w))
                  = log w @ [Log_ack_failed ''acknowledge_event_error'' (channel_id self)
                               (message_ts self)]
              \<and> fst (acknowledge_event_not_handled self w) = None
              \<and> log (snd (acknowledge_event_not_handled self w))
                  = log w @ [Log_ack_failed ''acknowledge_event_not_handled''
                               (channel_id self) (message_ts self)])
   \<and> (faults (slack_sdk_wrapper w) = Some x # fs \<and> \<not> is_client_exception x
            \<longrightarrow> fst (acknowledge_event_success cfg self w) = Some x
              \<and> fst (acknowledge_event_error cfg self w) = Some x
              \<and> fst (acknowledge_event_not_handled self w) = Some x)
   \<and> fst (acknowledge_event_success cfg self w)
       = (case first_fault (faults (slack_sdk_wrapper w))
                 (clearing_calls w (channel_id self) (message_ts self) + 1) of
            None \<Rightarrow> None
          | Some e \<Rightarrow> if is_client_exception e then None else Some e)
   \<and> (first_fault (faults (slack_sdk_wrapper w))
          (clearing_calls w (channel_id self) (message_ts self) + 1) = None
        \<longrightarrow> bot_reacted (snd (acknowledge_event_success cfg self w))
              (channel_id self) (message_ts self) (success_reaction cfg))
   \<and> (first_fault (faults (slack_sdk_wrapper w))
          (clearing_calls w (channel_id self) (message_ts self) + 1) = Some x
        \<and> is_client_exception x
        \<longrightarrow> last (log (snd (acknowledge_event_success cfg self w)))
              = Log_ack_failed ''acknowledge_event_success'' (channel_id self)
                  (message_ts self))
   \<and> fst (acknowledge_event_error cfg self w)
       = (case first_fault (faults (slack_sdk_wrapper w))
                 (clearing_calls w (channel_id self) (message_ts self) + 1) of
            None \<Rightarrow> None
          | Some e \<Rightarrow> if is_client_exception e then None else Some e)
   \<and> (first_fault (faults (slack_sdk_wrapper w))
          (clearing_calls w (channel_id self) (message_ts self) + 1) = None
        \<longrightarrow> bot_reacted (snd (acknowledge_event_error cfg self w))
              (channel_id self) (message_ts self) (error_reaction cfg))
   \<and> (first_fault (faults (slack_sdk_wrapper w))
          (clearing_calls w (channel_id self) (message_ts self) + 1) = Some x
        \<and> is_client_exception x
        \<longrightarrow> last (log (snd (acknowledge_event_error cfg self w)))
              = Log_ack_failed ''acknowledge_event_error'' (channel_id self)
                  (message_ts self))
   \<and> fst (acknowledge_event_not_handled self w)
       = (case first_fault (faults (slack_sdk_wrapper w))
                 (clearing_calls w (channel_id self) (message_ts self)) of
            None \<Rightarrow> None
          | Some e \<Rightarrow> if is_client_exception e then None else Some e)
   \<and> (first_fault (faults (slack_sdk_wrapper w))
          (clearing_calls w (channel_id self) (message_ts self)) = None
        \<longrightarrow> last (log (snd (acknowledge_event_not_handled self w)))
              = Log_ack_not_handled (channel_id self) (message_ts self))
   \<and> (first_fault (faults (slack_sdk_wrapper w))
          (clearing_calls w (channel_id self) (message_ts self)) = Some x
        \<and> is_client_exception x
        \<longrightarrow> last (log (snd (acknowledge_event_not_handled self w)))
              = Log_ack_failed ''acknowledge_event_not_handled'' (channel_id self)
                  (message_ts self))"
proof -
  have s: "fst (acknowledge_event_success cfg self w) = Some e
            \<longrightarrow> \<not> is_client_exception e \<and> Some e \<in> set (faults (slack_sdk_wrapper w))"
    unfolding acknowledge_event_success_def by (rule impI) (rule add_reaction_func_escapes)
  have r: "fst (acknowledge_event_error cfg self w) = Some e
            \<longrightarrow> \<not> is_client_exception e \<and> Some e \<in> set (faults (slack_sdk_wrapper w))"
    unfolding acknowledge_event_error_def by (rule impI) (rule add_reaction_func_escapes)
  have n: "fst (acknowledge_event_not_handled self w) = Some e
            \<longrightarrow> \<not> is_client_exception e \<and> Some e \<in> set (faults (slack_sdk_wrapper w))"
    unfolding acknowledge_event_not_handled_def by (rule impI) (rule log_func_escapes)
  have ls: "fst (acknowledge_event_success cfg self w) = None
            \<longrightarrow> bot_reacted (snd (acknowledge_event_success cfg self w))
                  (channel_id self) (message_ts self) (success_reaction cfg)
                \<or> last (log (snd (acknowledge_event_success cfg self w)))
                    = Log_ack_failed ''acknowledge_event_success'' (channel_id self)
                        (message_ts self)"
    unfolding acknowledge_event_success_def by (rule impI) (rule acknowledged_or_logged)
  have lr: "fst (acknowledge_event_error cfg self w) = None
            \<longrightarrow> bot_reacted (snd (acknowledge_event_error cfg self w))
                  (channel_id self) (message_ts self) (error_reaction cfg)
                \<or> last (log (snd (acknowledge_event_error cfg self w)))
                    = Log_ack_failed ''acknowledge_event_error'' (channel_id self)
                        (message_ts self)"
    unfolding acknowledge_event_error_def by (rule impI) (rule acknowledged_or_logged)
  have ln: "fst (acknowledge_event_not_handled self w) = None
            \<longrightarrow> last (log (snd (acknowledge_event_not_handled self w)))
                   = Log_ack_not_handled (channel_id self) (message_ts self)
                \<or> last (log (snd (acknowledge_event_not_handled self w)))
                    = Log_ack_failed ''acknowledge_event_not_handled'' (channel_id self)
                        (message_ts self)"
    unfolding acknowledge_event_not_handled_def by (rule impI) (rule not_handled_logged)
  have sw: "faults (slack_sdk_wrapper w) = Some x # fs \<and> is_client_exception x
            \<longrightarrow> fst (acknowledge_event_success cfg self w) = None
              \<and> log (snd (acknowledge_event_success cfg self w))
                  = log w @ [Log_ack_failed ''acknowledge_event_success'' (channel_id self)
                               (message_ts self)]
              \<and> fst (acknowledge_event_error cfg self w) = None
              \<and> log (snd (acknowledge_event_error cfg self w))
                  = log w @ [Log_ack_failed ''acknowledge_event_error'' (channel_id self)
                               (message_ts self)]
              \<and> fst (acknowledge_event_not_handled self w) = None
              \<and> log (snd (acknowledge_event_not_handled self w))
                  = log w @ [Log_ack_failed ''acknowledge_event_not_handled''
                               (channel_id self) (message_ts self)]"
    unfolding acknowledge_event_success_def acknowledge_event_error_def
      acknowledge_event_not_handled_def
    using acknowledge_prepare_first_call_fails(2) [of w x fs _ _ self] by blast
  have pr: "faults (slack_sdk_wrapper w) = Some x # fs \<and> \<not> is_client_exception x
            \<longrightarrow> fst (acknowledge_event_success cfg self w) = Some x
              \<and> fst (acknowledge_event_error cfg self w) = Some x
              \<and> fst (acknowledge_event_not_handled self w) = Some x"
    unfolding acknowledge_event_success_def acknowledge_event_error_def
      acknowledge_event_not_handled_def
    using acknowledge_prepare_first_call_fails(1) [of w x fs _ _ self] by blast
  have s1: "fst (acknowledge_event_success cfg self w)
       = (case first_fault (faults (slack_sdk_wrapper w))
                 (clearing_calls w (channel_id self) (message_ts self) + 1) of
            None \<Rightarrow> None
          | Some e \<Rightarrow> if is_client_exception e then None else Some e)"
    unfolding acknowledge_event_success_def by (rule add_reaction_func_outcome(1))
  have s2: "first_fault (faults (slack_sdk_wrapper w))
          (clearing_calls w (channel_id self) (message_ts self) + 1) = None
        \<longrightarrow> bot_reacted (snd (acknowledge_event_success cfg self w))
              (channel_id self) (message_ts self) (success_reaction cfg)"
    unfolding acknowledge_event_success_def by (rule add_reaction_func_outcome(2))
  have s3: "first_fault (faults (slack_sdk_wrapper w))
          (clearing_calls w (channel_id self) (message_ts self) + 1) = Some x
        \<and> is_client_exception x
        \<longrightarrow> last (log (snd (acknowledge_event_success cfg self w)))
              = Log_ack_failed ''acknowledge_event_success'' (channel_id self)
                  (message_ts self)"
    unfolding acknowledge_event_success_def by (rule add_reaction_func_outcome(3))
  have r1: "fst (acknowledge_event_error cfg self w)
       = (case first_fault (faults (slack_sdk_wrapper w))
                 (clearing_calls w (channel_id self) (message_ts self) + 1) of
            None \<Rightarrow> None
          | Some e \<Rightarrow> if is_client_exception e then None else Some e)"
    unfolding acknowledge_event_error_def by (rule add_reaction_func_outcome(1))
  have r2: "first_fault (faults (slack_sdk_wrapper w))
          (clearing_calls w (channel_id self) (message_ts self) + 1) = None
        \<longrightarrow> bot_reacted (snd (acknowledge_event_error cfg self w))
              (channel_id self) (message_ts self) (error_reaction cfg)"
    unfolding acknowledge_event_error_def by (rule add_reaction_func_outcome(2))
  have r3: "first_fault (faults (slack_sdk_wrapper w))
          (clearing_calls w (channel_id self) (message_ts self) + 1) = Some x
        \<and> is_client_exception x
        \<longrightarrow> last (log (snd (acknowledge_event_error cfg self w)))
              = Log_ack_failed ''acknowledge_event_error'' (channel_id self)
                  (message_ts self)"
    unfolding acknowledge_event_error_def by (rule add_reaction_func_outcome(3))
  have n1: "fst (acknowledge_event_not_handled self w)
       = (case first_fault (faults (slack_sdk_wrapper w))
                 (clearing_calls w (channel_id self) (message_ts self)) of
            None \<Rightarrow> None
          | Some e \<Rightarrow> if is_client_exception e then None else Some e)"
    unfolding acknowledge_event_not_handled_def by (rule log_func_outcome(1))
  have n2: "first_fault (faults (slack_sdk_wrapper w))
          (clearing_calls w (channel_id self) (message_ts self)) = None
        \<longrightarrow> last (log (snd (acknowledge_event_not_handled self w)))
              = Log_ack_not_handled (channel_id self) (message_ts self)"
    unfolding acknowledge_event_not_handled_def
    by (rule log_func_outcome(2)
          [where entry = "\<lambda>self. Log_ack_not_handled (channel_id self) (message_ts self)"])
  have n3: "first_fault (faults (slack_sdk_wrapper w))
          (clearing_calls w (channel_id self) (message_ts self)) = Some x
        \<and> is_client_exception x
        \<longrightarrow> last (log (snd (acknowledge_event_not_handled self w)))
              = Log_ack_failed ''acknowledge_event_not_handled'' (channel_id self)
                  (message_ts self)"
    unfolding acknowledge_event_not_handled_def by (rule log_func_outcome(3))
  show ?thesis
    by (intro conjI s r n ls lr ln sw pr s1 s2 s3 r1 r2 r3 n1 n2 n3)
qed

theorem acknowledge_swallows_client_exceptions_witness:
  "first_fault (faults (slack_sdk_wrapper
          (example_marked_world [None, Some (ClientException ''ratelimited'')])))
       (clearing_calls (example_marked_world [None, Some (ClientException ''ratelimited'')])
          ''C1'' ''2.0'' + 1)
     = Some (ClientException ''ratelimited'')
   \<and> is_client_exception (ClientException ''ratelimited'')
   \<and> fst (acknowledge_event_success example_config example_event
          (example_marked_world [None, Some (ClientException ''ratelimited'')])) = None
   \<and> last (log (snd (acknowledge_event_success example_config example_event
          (example_marked_world [None, Some (ClientException ''ratelimited'')]))))
       = Log_ack_failed ''acknowledge_event_success'' ''C1'' ''2.0''
   \<and> first_fault (faults (slack_sdk_wrapper
          (example_marked_world [None, None, Some (OtherException ''URLError'')])))
       (clearing_calls (example_marked_world [None, None, Some (OtherException ''URLError'')])
          ''C1'' ''2.0'' + 1)
     = Some (OtherException ''URLError'')
   \<and> fst (acknowledge_event_error example_config example_event
          (example_marked_world [None, None, Some (OtherException ''URLError'')]))
     = Some (OtherException ''URLError'')
   \<and> \<not> is_client_exception (OtherException ''URLError'')
   \<and> Some (OtherException ''URLError'') \<in> set (faults (slack_sdk_wrapper
          (example_marked_world [None, None, Some (OtherException ''URLError'')])))
   \<and> first_fault (faults (slack_sdk_wrapper (example_marked_world [None, None])))
       (clearing_calls (example_marked_world [None, None]) ''C1'' ''2.0'') = None
   \<and> last (log (snd (acknowledge_event_not_handled example_event
          (example_marked_world [None, None]))))
       = Log_ack_not_handled ''C1'' ''2.0''"
proof -
  let ?c = "ClientException ''ratelimited''"
  let ?o = "OtherException ''URLError''"
  let ?w = "example_marked_world [None, Some ?c]"
  let ?v = "example_marked_world [None, None, Some ?o]"
  let ?u = "example_marked_world [None, None]"
  have ids: "channel_id example_event = ''C1''" "message_ts example_event = ''2.0''"
    by (simp_all add: example_event_def)
  have hw: "first_fault (faults (slack_sdk_wrapper ?w)) (clearing_calls ?w ''C1'' ''2.0'' + 1)
      = Some ?c"
    by (simp add: clearing_calls_def is_bot_mark_def get_reactions_def
        example_marked_world_def example_world_def example_slack_def)
  have hv: "first_fault (faults (slack_sdk_wrapper ?v)) (clearing_calls ?v ''C1'' ''2.0'' + 1)
      = Some ?o"
    by (simp add: clearing_calls_def is_bot_mark_def get_reactions_def
        example_marked_world_def example_world_def example_slack_def)
  have hu: "first_fault (faults (slack_sdk_wrapper ?u)) (clearing_calls ?u ''C1'' ''2.0'') = None"
    by (simp add: clearing_calls_def is_bot_mark_def get_reactions_def
        example_marked_world_def example_world_def example_slack_def)
  have cl: "is_client_exception ?c" by simp
  note iw = acknowledge_swallows_client_exceptions
      [where cfg = example_config and self = example_event and w = ?w and x = ?c,
       unfolded ids]
  note iv = acknowledge_swallows_client_exceptions
      [where cfg = example_config and self = example_event and w = ?v and e = ?o,
       unfolded ids]
  note iu = acknowledge_swallows_client_exceptions
      [where cfg = example_config and self = example_event and w = ?u, unfolded ids]
  from iw have "fst (acknowledge_event_success example_config example_event ?w)
       = (case first_fault (faults (slack_sdk_wrapper ?w))
                 (clearing_calls ?w ''C1'' ''2.0'' + 1) of
            None \<Rightarrow> None
          | Some e \<Rightarrow> if is_client_exception e then None else Some e)"
    by blast
  then have a: "fst (acknowledge_event_success example_config example_event ?w) = None"
    by (simp only: hw) simp
  from iw hw cl
  have b: "last (log (snd (acknowledge_event_success example_config example_event ?w)))
       = Log_ack_failed ''acknowledge_event_success'' ''C1'' ''2.0''"
    by blast
  from iv have "fst (acknowledge_event_error example_config example_event ?v)
       = (case first_fault (faults (slack_sdk_wrapper ?v))
                 (clearing_calls ?v ''C1'' ''2.0'' + 1) of
            None \<Rightarrow> None
          | Some e \<Rightarrow> if is_client_exception e then None else Some e)"
    by blast
  then have c: "fst (acknowledge_event_error example_config example_event ?v) = Some ?o"
    by (simp only: hv) simp
  from iv c
  have d: "\<not> is_client_exception ?o"
    and e: "Some ?o \<in> set (faults (slack_sdk_wrapper ?v))"
    by blast+
  from iu hu
  have f: "last (log (snd (acknowledge_event_not_handled example_event ?u)))
       = Log_ack_not_handled ''C1'' ''2.0''"
    by blast
  show ?thesis
    by (intro conjI hw cl a b hv c d e hu f)
qed

text \<open>
  An exception that is not a client error leaves the acknowledgement: here the first
  call of the reactions API fails with a connection error.
\<close>

theorem acknowledge_escape_counterexample:
  "fst (acknowledge_event_success example_config example_event
          (example_marked_world [Some (OtherException ''URLError'')]))
     = Some (OtherException ''URLError'')"
  by (simp add: ack_defs example_defs)

text \<open>
  Claim C1, as the code has it. When the calls of the reactions API succeed during the
  acknowledgement: a body that completes leaves the success mark of the bot on the
  source message and nothing is raised; a body that raises \<open>NotHandledException\<close> is
  logged as not handled, nothing is raised and no mark is added, but the earlier marks
  of the bot are cleared from the source message; a body that raises any other
  exception has it logged, the failure mark is left on the source message, and the
  exception is raised again unless it is an \<open>IgnorableException\<close>.
\<close>

theorem handle_event_outcomes:
  fixes self :: "'a event_scheme"
  assumes run: "process_event self w = (r, w1)"
    and quiet: "faults (slack_sdk_wrapper w1) = []"
  shows "(r = None
            \<longrightarrow> fst (handle_event cfg process_event self w) = None
              \<and> bot_reacted (snd (handle_event cfg process_event self w))
                   (channel_id self) (message_ts self) (success_reaction cfg))
    \<and> (\<forall>e. r = Some e \<and> is_not_handled e
            \<longrightarrow> fst (handle_event cfg process_event self w) = None
              \<and> (\<forall>n. n \<noteq> [] \<longrightarrow> \<not> bot_reacted (snd (handle_event cfg process_event self w))
                          (channel_id self) (message_ts self) n)
              \<and> last (log (snd (handle_event cfg process_event self w)))
                   = Log_ack_not_handled (channel_id self) (message_ts self))
    \<and> (\<forall>e. r = Some e \<and> \<not> is_not_handled e
            \<longrightarrow> fst (handle_event cfg process_event self w)
                   = (if is_ignorable e then None else Some e)
              \<and> bot_reacted (snd (handle_event cfg process_event self w))
                   (channel_id self) (message_ts self) (error_reaction cfg)
              \<and> Log_operation_exception e
                   \<in> set (log (snd (handle_event cfg process_event self w))))"
proof (intro conjI allI impI)
  assume "r = None"
  then have h: "handle_event cfg process_event self w = acknowledge_event_success cfg self w1"
    using run by (simp add: handle_event_def)
  from quiet_add_reaction_func [OF quiet, where name = "''acknowledge_event_success''"
      and entry = "\<lambda>self. Log_ack_success (channel_id self) (message_ts self)
                          (success_reaction cfg)"
      and n = "success_reaction cfg" and self = self]
  obtain w' where
    "acknowledge_event_success cfg self w1 = (None, w')"
    "bot_reacted w' (channel_id self) (message_ts self) (success_reaction cfg)"
    unfolding acknowledge_event_success_def by blast
  then show "fst (handle_event cfg process_event self w) = None"
    and "bot_reacted (snd (handle_event cfg process_event self w))
           (channel_id self) (message_ts self) (success_reaction cfg)"
    using h by simp_all
next
  fix e
  assume a: "r = Some e \<and> is_not_handled e"
  then have h: "handle_event cfg process_event self w = acknowledge_event_not_handled self w1"
    using run by (simp add: handle_event_def)
  from quiet_log_func [OF quiet, where name = "''acknowledge_event_not_handled''"
      and entry = "\<lambda>self. Log_ack_not_handled (channel_id self) (message_ts self)"
      and self = self]
  obtain w' where
    "acknowledge_event_not_handled self w1 = (None, w')"
    "\<forall>n. n \<noteq> [] \<longrightarrow> \<not> bot_reacted w' (channel_id self) (message_ts self) n"
    "log w' = log w1 @ [Log_ack_not_handled (channel_id self) (message_ts self)]"
    unfolding acknowledge_event_not_handled_def by blast
  then show "fst (handle_event cfg process_event self w) = None"
    and "\<And>n. n \<noteq> [] \<Longrightarrow> \<not> bot_reacted (snd (handle_event cfg process_event self w))
                          (channel_id self) (message_ts self) n"
    and "last (log (snd (handle_event cfg process_event self w)))
                   = Log_ack_not_handled (channel_id self) (message_ts self)"
    using h by simp_all
next
  fix e
  assume a: "r = Some e \<and> \<not> is_not_handled e"
  let ?w = "add_log (Log_operation_exception e) w1"
  have q: "faults (slack_sdk_wrapper ?w) = []" using quiet by simp
  from quiet_add_reaction_func [OF q, where name = "''acknowledge_event_error''"
      and entry = "\<lambda>self. Log_ack_error (channel_id self) (message_ts self)
                          (error_reaction cfg)"
      and n = "error_reaction cfg" and self = self]
  obtain w' where
    k: "acknowledge_event_error cfg self ?w = (None, w')"
    "bot_reacted w' (channel_id self) (message_ts self) (error_reaction cfg)"
    "log w' = log ?w @ [Log_ack_error (channel_id self) (message_ts self) (error_reaction cfg)]"
    unfolding acknowledge_event_error_def by blast
  have h: "handle_event cfg process_event self w
             = ((if is_ignorable e then None else Some e), w')"
    using run a k(1) by (simp add: handle_event_def)
  show "fst (handle_event cfg process_event self w) = (if is_ignorable e then None else Some e)"
    using h by simp
  show "bot_reacted (snd (handle_event cfg process_event self w))
           (channel_id self) (message_ts self) (error_reaction cfg)"
    using h k(2) by simp
  show "Log_operation_exception e \<in> set (log (snd (handle_event cfg process_event self w)))"
    using h k(3) by simp
qed


theorem handle_event_outcomes_witness:
  "fst (register_process_event example_config example_event (example_marked_world [])) = None
   \<and> fst (handle_event example_config (register_process_event example_config) example_event
            (example_marked_world [])) = None
   \<and> bot_reacted (snd (handle_event example_config (register_process_event example_config)
            example_event (example_marked_world []))) ''C1'' ''2.0'' ''white_check_mark''
   \<and> get_reactions (snd (handle_event example_config (register_process_event example_config)
            example_event (example_marked_world []))) ''C1'' ''2.0''
     = [\<lparr>r_name = Some ''x'', r_users = [''U2'']\<rparr>,
        \<lparr>r_name = Some ''eyes'', r_users = [''U3'']\<rparr>,
        \<lparr>r_name = Some ''white_check_mark'', r_users = [''B1'']\<rparr>]
   \<and> fst (handle_event example_config deregister_process_event example_event
            (example_marked_world [])) = None
   \<and> bot_reacted (snd (handle_event example_config deregister_process_event
            example_event (example_marked_world []))) ''C1'' ''2.0'' ''x''"
proof -
  let ?w = "example_marked_world []"
  let ?reg = "register_process_event example_config"
  have run: "?reg example_event ?w = (None, snd (?reg example_event ?w))"
    by (simp add: example_marked_world_def example_defs workflow_defs)
  have quiet: "faults (slack_sdk_wrapper (snd (?reg example_event ?w))) = []"
    by (simp add: example_marked_world_def example_defs workflow_defs)
  note t = handle_event_outcomes [where process_event = "?reg" and self = example_event
      and w = "?w" and cfg = example_config, OF run quiet]
  have a: "fst (?reg example_event ?w) = None" using run by (metis fst_conv)
  have b: "fst (handle_event example_config ?reg example_event ?w) = None"
    using t by blast
  have c: "bot_reacted (snd (handle_event example_config ?reg example_event ?w))
             ''C1'' ''2.0'' ''white_check_mark''"
    using t by (simp add: example_event_def example_config_def)
  have d: "get_reactions (snd (handle_event example_config ?reg example_event ?w))
             ''C1'' ''2.0''
     = [\<lparr>r_name = Some ''x'', r_users = [''U2'']\<rparr>,
        \<lparr>r_name = Some ''eyes'', r_users = [''U3'']\<rparr>,
        \<lparr>r_name = Some ''white_check_mark'', r_users = [''B1'']\<rparr>]"
    by (simp add: ack_defs example_defs workflow_defs)
  let ?e = "IgnorableException (NoJiraLinkInformation (dynamodb_key ''PROJ-1'' ''C1_1.0''))"
  have run2: "deregister_process_event example_event ?w = (Some ?e, ?w)"
    by (simp add: example_marked_world_def example_defs workflow_defs)
  have quiet2: "faults (slack_sdk_wrapper ?w) = []"
    by (simp add: example_marked_world_def)
  note u = handle_event_outcomes [where process_event = deregister_process_event
      and self = example_event and w = "?w" and cfg = example_config, OF run2 quiet2]
  have f: "fst (handle_event example_config deregister_process_event example_event ?w) = None"
    using u by simp
  have g: "bot_reacted (snd (handle_event example_config deregister_process_event
            example_event ?w)) ''C1'' ''2.0'' ''x''"
    using u by (simp add: example_event_def example_config_def)
  show ?thesis
    by (intro conjI a b c d f g)
qed


text \<open>
  A run whose body raises \<open>NotHandledException\<close> acts visibly: the mark the bot had left
  on the source message is removed.
\<close>

theorem handle_event_not_handled_counterexample:
  "get_reactions (example_marked_world []) ''C1'' ''2.0''
     = [\<lparr>r_name = Some ''x'', r_users = [''B1'', ''U2'']\<rparr>,
        \<lparr>r_name = Some ''eyes'', r_users = [''U3'']\<rparr>]
   \<and> fst (handle_event example_config raise_not_handled example_event
            (example_marked_world [])) = None
   \<and> get_reactions (snd (handle_event example_config raise_not_handled example_event
            (example_marked_world []))) ''C1'' ''2.0''
     = [\<lparr>r_name = Some ''x'', r_users = [''U2'']\<rparr>,
        \<lparr>r_name = Some ''eyes'', r_users = [''U3'']\<rparr>]"
  by (simp add: ack_defs example_defs raise_def)

end
